theory Spec2Isabelle
  imports Complex_Main
begin

section \<open>Python strings\<close>

text \<open>
  A Python \<open>str\<close> is modelled as a \<open>string\<close> whose characters are the code points
  below 256 (ASCII and the Latin-1 supplement, which holds every accented letter of the
  keyword tables of the agents): one \<open>char\<close> is one code point, so \<open>length\<close> counts what
  Python's \<open>len\<close> counts. A letter outside ASCII is written by its code point, for
  example \<open>CHR 0xE3\<close> for the a with tilde.
\<close>

definition py_isspace :: "char \<Rightarrow> bool" where
  \<comment> \<open>\<open>str.isspace\<close> on one character, which is also the class \<open>\s\<close> of \<open>re\<close>\<close>
  "py_isspace c =
     (let n = (of_char c :: nat)
      in (9 \<le> n \<and> n \<le> 13) \<or> (28 \<le> n \<and> n \<le> 32) \<or> n = 133 \<or> n = 160)"

definition lower_char :: "char \<Rightarrow> char" where
  \<comment> \<open>\<open>str.lower\<close> on one character: A-Z, and the capital letters 0xC0-0xDE but 0xD7\<close>
  "lower_char c =
     (let n = (of_char c :: nat)
      in if (65 \<le> n \<and> n \<le> 90) \<or> (192 \<le> n \<and> n \<le> 222 \<and> n \<noteq> 215)
         then (case c of Char b0 b1 b2 b3 b4 b5 b6 b7 \<Rightarrow> Char b0 b1 b2 b3 b4 True b6 b7)
         else c)"

definition lower :: "string \<Rightarrow> string" where
  "lower s = map lower_char s"

definition strip :: "string \<Rightarrow> string" where
  "strip s = rev (dropWhile py_isspace (rev (dropWhile py_isspace s)))"

fun startswith :: "string \<Rightarrow> string \<Rightarrow> bool" where
  \<comment> \<open>\<open>startswith s w\<close>: \<open>s.startswith(w)\<close>\<close>
  "startswith s [] = True"
| "startswith [] (c # w) = False"
| "startswith (d # s) (c # w) = (d = c \<and> startswith s w)"

fun contains :: "string \<Rightarrow> string \<Rightarrow> bool" where
  \<comment> \<open>\<open>contains w s\<close>: the substring test \<open>w in s\<close>\<close>
  "contains w [] = (w = [])"
| "contains w (c # s) = (startswith (c # s) w \<or> contains w s)"

definition any_in :: "string list \<Rightarrow> string \<Rightarrow> bool" where
  \<comment> \<open>\<open>any(w in s for w in ws)\<close>\<close>
  "any_in ws s = list_ex (\<lambda>w. contains w s) ws"

definition digit_char :: "nat \<Rightarrow> char" where
  "digit_char d = ''0123456789'' ! d"

function str_nat :: "nat \<Rightarrow> string" where
  \<comment> \<open>\<open>str(n)\<close> of a non-negative integer\<close>
  "str_nat n = (if n < 10 then [digit_char n] else str_nat (n div 10) @ [digit_char (n mod 10)])"
  by pat_completeness auto
termination
  by (relation "measure id") auto

declare str_nat.simps [simp del]

section \<open>uninformed\_search.py\<close>

definition slot_label :: "nat \<Rightarrow> string \<Rightarrow> string" where
  \<comment> \<open>\<open>f"Slot {k}: {task}"\<close>\<close>
  "slot_label k task = ''Slot '' @ str_nat k @ '': '' @ task"

fun bfs_loop :: "string list \<Rightarrow> string list \<Rightarrow> int \<Rightarrow> string list" where
  \<comment> \<open>the \<open>while queue and len(schedule) < available_slots\<close> loop\<close>
  "bfs_loop [] schedule available_slots = schedule"
| "bfs_loop (task # queue) schedule available_slots =
     (if int (length schedule) < available_slots
      then bfs_loop queue (schedule @ [slot_label (length schedule + 1) task]) available_slots
      else schedule)"

definition bfs_schedule :: "string list \<Rightarrow> int \<Rightarrow> string list" where
  "bfs_schedule tasks available_slots =
     (if tasks = [] \<or> available_slots = 0 then []
      else bfs_loop tasks [] available_slots)"

definition calculate_stress_slots :: "real \<Rightarrow> int" where
  "calculate_stress_slots stress_level =
     (if stress_level > 0.7 then 2
      else if stress_level > 0.4 then 3
      else 4)"

section \<open>agents/emotion\_agent.py\<close>

text \<open>
  The scores are Python floats. The model computes them over the reals: every score the
  heuristic produces is a multiple of 0.05 between 0 and 1, far from the thresholds it is
  compared with, and the final \<open>round(x, 2)\<close> removes the binary rounding noise of the
  float sums, so the rounded float and the rounded real agree.
\<close>

definition round_half_even :: "real \<Rightarrow> int" where
  "round_half_even x =
     (let f = \<lfloor>x\<rfloor>; d = x - of_int f
      in if d < 1/2 then f else if d > 1/2 then f + 1 else if even f then f else f + 1)"

definition round2 :: "real \<Rightarrow> real" where
  \<comment> \<open>\<open>round(x, 2)\<close>\<close>
  "round2 x = of_int (round_half_even (x * 100)) / 100"

definition round3 :: "real \<Rightarrow> real" where
  \<comment> \<open>\<open>round(x, 3)\<close>\<close>
  "round3 x = of_int (round_half_even (x * 1000)) / 1000"

record emotion_scores =
  stress_score :: real
  valence :: real
  dominant :: "string option"

record hf_item =
  label :: string
  score :: real

datatype hf_value = HfItem hf_item | HfList "hf_value list"

record classification =
  raw :: "hf_value list"
  emotion :: emotion_scores

subsection \<open>The heuristic classifier\<close>

definition stress_indicators :: "string list" where
  "stress_indicators =
     [''stress'', ''stressado'', ''estressado'', ''estressada'',
      ''tens'' @ [CHR 0xE3] @ ''o'', ''tenso'', ''tensa'', ''ansios'', ''ansiedade'',
      ''ansioso'', ''ansiosa'', ''nervos'', ''nervoso'', ''nervosa'', ''nervousness'',
      ''preocupad'', ''preocupado'', ''preocupada'', ''angustia'',
      ''ang'' @ [CHR 0xFA] @ ''stia'', ''angustiado'', ''angustiada'', ''medo'', ''tem medo'',
      ''assustado'', ''assustada'', ''p'' @ [CHR 0xE2] @ ''nico'',
      ''ataque de p'' @ [CHR 0xE2] @ ''nico'', ''aterrorizado'', ''sobrecarreg'',
      ''sobrecarregado'', ''sobrecarregada'', ''press'' @ [CHR 0xE3] @ ''o'', ''deadline'',
      ''prazo'', ''prazos'', ''exame'', ''teste'', ''prova'', ''exaust'', ''exausto'',
      ''exausta'', ''esgotado'', ''esgotada'', ''faculdade'', ''universidade'',
      ''n'' @ [CHR 0xE3] @ ''o consigo dormir'', ''ins'' @ [CHR 0xF4] @ ''nia'', ''insonia'',
      ''cora'' @ [CHR 0xE7] @ [CHR 0xE3] @ ''o acelerado'', ''suor frio'',
      ''n'' @ [CHR 0xE3] @ ''o consigo respirar'', ''falta de ar'', ''tremor'', ''tremores'',
      ''cansado'', ''cansada'', ''desesperado'', ''desesperada'',
      ''sem esperan'' @ [CHR 0xE7] @ ''a'', ''n'' @ [CHR 0xE3] @ ''o aguento mais'',
      ''no limite'', ''fatigado'', ''fatigada'', ''esgotamento'', ''irritado'', ''irritada'',
      ''zangado'', ''zangada'', ''raiva'', ''furioso'', ''furiosa'', ''sobrecarregado'',
      ''sobrecarregada'', ''n'' @ [CHR 0xE3] @ ''o dou conta'', ''muito para fazer'',
      ''muitas tarefas'', ''muito trabalho'', ''muita press'' @ [CHR 0xE3] @ ''o'',
      ''muitos exames'', ''muitos trabalhos'']"

definition valence_indicators :: "string list" where
  "valence_indicators =
     [''feliz'', ''alegre'', ''bom'', ''boa'', ''satisfeito'', ''satisfeita'', ''alegria'',
      ''joy'', ''happy'', ''love'', ''content'', ''contente'', ''bem'', ''optimista'',
      ''otimista'', ''grato'', ''grata'', ''sorridente'', ''sorriso'', ''entusiasmado'',
      ''entusiasmada'', ''animado'', ''animada'', ''felicidade'', ''prazer'',
      ''divers'' @ [CHR 0xE3] @ ''o'', ''brincar'']"

definition indicator_weight :: "string \<Rightarrow> nat" where
  \<comment> \<open>the weight added to \<open>stress_count\<close> for an indicator found in the text\<close>
  "indicator_weight w =
     (if w \<in> set [''ataque de p'' @ [CHR 0xE2] @ ''nico'', ''n'' @ [CHR 0xE3] @ ''o aguento mais'',
                    ''no limite'', ''desesperado'', ''desesperada''] then 4
      else if w \<in> set [''exausto'', ''exausta'', ''esgotado'', ''esgotada'',
                         ''sobrecarregado'', ''sobrecarregada''] then 3
      else if w \<in> set [''ansiedade'', ''p'' @ [CHR 0xE2] @ ''nico'',
                         ''ang'' @ [CHR 0xFA] @ ''stia'', ''nervousness''] then 2
      else 1)"

fun stress_count_loop :: "string list \<Rightarrow> string \<Rightarrow> nat \<Rightarrow> nat" where
  \<comment> \<open>\<open>for w in stress_indicators: if w in lower: stress_count += weight\<close>\<close>
  "stress_count_loop [] lower_text stress_count = stress_count"
| "stress_count_loop (w # ws) lower_text stress_count =
     stress_count_loop ws lower_text
       (if contains w lower_text then stress_count + indicator_weight w else stress_count)"

definition stress_count_of :: "string \<Rightarrow> nat" where
  "stress_count_of lower_text = stress_count_loop stress_indicators lower_text 0"

definition valence_count_of :: "string \<Rightarrow> nat" where
  \<comment> \<open>\<open>sum(1 for w in valence_indicators if w in lower)\<close>\<close>
  "valence_count_of lower_text = length (filter (\<lambda>w. contains w lower_text) valence_indicators)"

text \<open>
  The high-stress phrases are regular expressions made of literal characters, \<open>\s+\<close> and
  \<open>.\<close> only; \<open>re_search\<close> is \<open>re.search\<close> for such patterns (without \<open>re.DOTALL\<close>, so
  \<open>.\<close> does not match a newline).
\<close>

datatype re_tok = Lit char | Spaces | AnyChar

definition lit :: "string \<Rightarrow> re_tok list" where
  "lit s = map Lit s"

fun re_match_here :: "re_tok list \<Rightarrow> string \<Rightarrow> bool" where
  "re_match_here [] s = True"
| "re_match_here (t # p) [] = False"
| "re_match_here (Lit c # p) (d # s) = (d = c \<and> re_match_here p s)"
| "re_match_here (AnyChar # p) (d # s) = (d \<noteq> CHR 0x0A \<and> re_match_here p s)"
| "re_match_here (Spaces # p) (d # s) =
     (py_isspace d \<and> (re_match_here (Spaces # p) s \<or> re_match_here p s))"

fun re_search :: "re_tok list \<Rightarrow> string \<Rightarrow> bool" where
  "re_search p [] = re_match_here p []"
| "re_search p (c # s) = (re_match_here p (c # s) \<or> re_search p s)"

definition high_stress_phrases :: "re_tok list list" where
  "high_stress_phrases =
     [lit ''estou'' @ [Spaces] @ lit ''muito'' @ [Spaces] @ lit ''stressado'',
      lit ''muitos'' @ [Spaces] @ lit ''exames'',
      lit ''muitos'' @ [Spaces] @ lit ''trabalhos'',
      lit ''sinto'' @ [AnyChar] @ lit ''me'' @ [Spaces] @ lit ''sobrecarregado'',
      lit ''sinto'' @ [AnyChar] @ lit ''me'' @ [Spaces] @ lit ''sobrecarregada'',
      lit ''sinto'' @ [AnyChar] @ lit ''me'' @ [Spaces] @ lit ''cansado'',
      lit ''sinto'' @ [AnyChar] @ lit ''me'' @ [Spaces] @ lit ''cansada'',
      lit (''n'' @ [CHR 0xE3] @ ''o'') @ [Spaces] @ lit ''aguento'' @ [Spaces] @ lit ''mais'',
      lit ''estou'' @ [Spaces] @ lit ''no'' @ [Spaces] @ lit ''limite'',
      lit ''ataque'' @ [Spaces] @ lit ''de'' @ [Spaces] @ lit (''p'' @ [CHR 0xE2] @ ''nico''),
      lit (''n'' @ [CHR 0xE3] @ ''o'') @ [Spaces] @ lit ''consigo'' @ [Spaces] @ lit ''respirar'',
      lit (''cora'' @ [CHR 0xE7] @ [CHR 0xE3] @ ''o'') @ [Spaces] @ lit ''acelerado'',
      lit ''vou'' @ [Spaces] @ lit ''ter'' @ [Spaces] @ lit ''um'' @ [Spaces] @ lit ''ataque'',
      lit (''n'' @ [CHR 0xE3] @ ''o'') @ [Spaces] @ lit ''vejo'' @ [Spaces] @ lit (''solu'' @ [CHR 0xE7] @ [CHR 0xE3] @ ''o''),
      lit ''estou'' @ [Spaces] @ lit ''desesperado'',
      lit ''estou'' @ [Spaces] @ lit ''desesperada'']"

definition high_stress_phrase_found :: "string \<Rightarrow> bool" where
  \<comment> \<open>whether the loop over \<open>high_stress_phrases\<close> finds a match\<close>
  "high_stress_phrase_found lower_text = list_ex (\<lambda>phrase. re_search phrase lower_text) high_stress_phrases"

definition counted_stress :: "string \<Rightarrow> real" where
  \<comment> \<open>the stress score before the phrase detector\<close>
  "counted_stress lower_text =
     (let stress_count = stress_count_of lower_text
      in if stress_count > 0 then
           (let base_stress = 0.5; increment = 0.15;
                stress = min 1.0 (base_stress + (real stress_count * increment))
            in if stress_count \<ge> 6 then min 1.0 (stress + 0.3)
               else if stress_count \<ge> 4 then min 1.0 (stress + 0.2)
               else if stress_count \<ge> 2 then min 1.0 (stress + 0.1)
               else stress)
         else if any_in [''stress'', ''ansiedade'', ''preocupado'', ''sobrecarregado''] lower_text
         then 0.4
         else 0.0)"

definition heuristic_stress :: "string \<Rightarrow> real" where
  \<comment> \<open>the stress score after the phrase detector: \<open>stress = max(stress, 0.7)\<close> on a match\<close>
  "heuristic_stress lower_text =
     (if high_stress_phrase_found lower_text then max (counted_stress lower_text) 0.7
      else counted_stress lower_text)"

definition heuristic_valence :: "string \<Rightarrow> real" where
  "heuristic_valence lower_text =
     (let valence_count = valence_count_of lower_text
      in if valence_count > 0 then min 0.9 (0.3 + (real valence_count * 0.1)) else 0.0)"

definition dominant_emotion :: "real \<Rightarrow> real \<Rightarrow> string" where
  "dominant_emotion stress valence_v =
     (if stress > 0.7 then ''alto_stress''
      else if stress > 0.4 then ''stress''
      else if stress > valence_v then ''stress_leve''
      else if valence_v > stress then ''felicidade''
      else ''neutro'')"

definition classify_heuristic :: "string \<Rightarrow> classification" where
  "classify_heuristic text =
     (let lower_text = lower text;
          stress = heuristic_stress lower_text;
          valence_v = heuristic_valence lower_text
      in \<lparr>raw = [],
          emotion = \<lparr>stress_score = round2 stress, valence = round2 valence_v,
                      dominant = Some (dominant_emotion stress valence_v)\<rparr>\<rparr>)"

subsection \<open>The optional HuggingFace scorer\<close>

text \<open>
  The pipeline is an external model: a function from the text to what it returns (a
  list of label/score dictionaries, possibly nested in lists), or \<open>None\<close> where it raises.
  Importing \<open>transformers\<close> and building the pipeline is an effect of the environment,
  given by a value of \<open>transformers_import\<close>.
\<close>

type_synonym hf_pipeline = "string \<Rightarrow> hf_value option"

datatype transformers_import =
    ImportFails
  | NoPipelineAttribute
  | PipelineFails
  | PipelineLoaded hf_pipeline

datatype hf_error = HfError

record emotion_agent =
  model_name :: "string option"
  use_hf :: bool
  pipeline :: "hf_pipeline option"
  pipeline_initialized :: bool

definition EmotionAgent_init :: "string option \<Rightarrow> bool option \<Rightarrow> string option \<Rightarrow> emotion_agent" where
  \<comment> \<open>\<open>__init__(model_name, use_hf)\<close>; \<open>env_use_hf\<close> is \<open>os.getenv("USE_HF")\<close>\<close>
  "EmotionAgent_init name use_hf_arg env_use_hf =
     \<lparr>model_name = name,
      use_hf = (case use_hf_arg of
                  Some b \<Rightarrow> b
                | None \<Rightarrow>
                    (case env_use_hf of
                       Some v \<Rightarrow> strip v \<notin> set [''0'', ''false'', ''False'', ''no'', ''n'']
                     | None \<Rightarrow> False)),
      pipeline = None,
      pipeline_initialized = False\<rparr>"

definition ensure_pipeline_initialized :: "transformers_import \<Rightarrow> emotion_agent \<Rightarrow> bool \<times> emotion_agent" where
  "ensure_pipeline_initialized env a =
     (if pipeline_initialized a then (pipeline a \<noteq> None, a)
      else if \<not> use_hf a then (False, a\<lparr>pipeline_initialized := True\<rparr>)
      else (case env of
              PipelineLoaded p \<Rightarrow> (True, a\<lparr>pipeline := Some p, pipeline_initialized := True\<rparr>)
            | NoPipelineAttribute \<Rightarrow> (False, a\<lparr>use_hf := False, pipeline_initialized := True\<rparr>)
            | _ \<Rightarrow> (False, a\<lparr>pipeline := None, use_hf := False, pipeline_initialized := True\<rparr>)))"

definition hf_flatten :: "hf_value \<Rightarrow> hf_value list" where
  \<comment> \<open>the flattening of the pipeline's result into \<open>flat\<close>\<close>
  "hf_flatten results =
     (case results of
        HfList (first # others) \<Rightarrow>
          (case first of
             HfList _ \<Rightarrow>
               concat (map (\<lambda>item. case item of HfList inner \<Rightarrow> inner | HfItem _ \<Rightarrow> [item])
                           (first # others))
           | HfItem _ \<Rightarrow> first # others)
      | _ \<Rightarrow> [results])"

fun hf_items :: "hf_value list \<Rightarrow> hf_item list option" where
  \<comment> \<open>the dictionaries of \<open>flat\<close>; \<open>None\<close> where an entry is a list, on which \<open>r.get\<close> raises\<close>
  "hf_items [] = Some []"
| "hf_items (HfItem r # vs) = map_option (\<lambda>rs. r # rs) (hf_items vs)"
| "hf_items (HfList _ # vs) = None"

definition stress_labels :: "string list" where
  "stress_labels = [''anger'', ''sadness'', ''fear'', ''annoyance'', ''disapproval'',
                    ''disappointment'', ''nervousness'']"

definition valence_labels :: "string list" where
  "valence_labels = [''joy'', ''love'', ''approval'', ''admiration'', ''optimism'', ''excitement'']"

definition label_score_sum :: "string list \<Rightarrow> hf_item list \<Rightarrow> real" where
  \<comment> \<open>\<open>sum(float(r.get("score", 0.0)) for r in flat if r.get("label", "").lower() in labels)\<close>\<close>
  "label_score_sum labels rs = sum_list (map score (filter (\<lambda>r. lower (label r) \<in> set labels) rs))"

fun max_by_score :: "hf_item \<Rightarrow> hf_item list \<Rightarrow> hf_item" where
  \<comment> \<open>\<open>max(flat, key=score)\<close>: the first entry of greatest score\<close>
  "max_by_score best [] = best"
| "max_by_score best (r # rs) = max_by_score (if score r > score best then r else best) rs"

definition classify_with_hf :: "hf_pipeline \<Rightarrow> string \<Rightarrow> hf_error + classification" where
  "classify_with_hf p text =
     (case p text of
        None \<Rightarrow> Inl HfError
      | Some results \<Rightarrow>
          (let flat = hf_flatten results
           in case hf_items flat of
                None \<Rightarrow> Inl HfError
              | Some rs \<Rightarrow>
                  Inr \<lparr>raw = flat,
                       emotion =
                         \<lparr>stress_score = min 1.0 (label_score_sum stress_labels rs),
                          valence = min 1.0 (label_score_sum valence_labels rs),
                          dominant = (case rs of [] \<Rightarrow> None
                                      | r # rs' \<Rightarrow> Some (label (max_by_score r rs')))\<rparr>\<rparr>))"

text \<open>
  \<open>classify\<close> returns the classification, the agent as the call leaves it, and the texts
  it passed to the external scorer.
\<close>

definition classify :: "transformers_import \<Rightarrow> emotion_agent \<Rightarrow> string option
    \<Rightarrow> classification \<times> emotion_agent \<times> string list" where
  "classify env a text_arg =
     (let text = (case text_arg of None \<Rightarrow> [] | Some t \<Rightarrow> t);
          a1 = a\<lparr>use_hf := False\<rparr>
      in if use_hf a1 \<and> length (strip text) > 5 then
           (case ensure_pipeline_initialized env a1 of
              (ready, a2) \<Rightarrow>
                (case (if ready then pipeline a2 else None) of
                   Some p \<Rightarrow>
                     (case classify_with_hf p text of
                        Inr hf_result \<Rightarrow>
                          if stress_score (emotion hf_result) < 0.3
                          then (classify_heuristic text, a2, [text])
                          else (hf_result, a2, [text])
                      | Inl e \<Rightarrow> (classify_heuristic text, a2, [text]))
                 | None \<Rightarrow> (classify_heuristic text, a2, [])))
         else (classify_heuristic text, a1, []))"

text \<open>
  What the classifier is described to do: an enabled external scorer is asked first on a
  text longer than the minimum length, and the heuristic path is taken only where the
  scorer is unavailable, fails, or answers with a stress below 0.3. It differs from
  \<open>classify\<close> in one place only, the reset of \<open>use_hf\<close>.
\<close>

definition classify_scorer_first :: "transformers_import \<Rightarrow> emotion_agent \<Rightarrow> string option
    \<Rightarrow> classification \<times> emotion_agent \<times> string list" where
  "classify_scorer_first env a text_arg =
     (let text = (case text_arg of None \<Rightarrow> [] | Some t \<Rightarrow> t)
      in if use_hf a \<and> length (strip text) > 5 then
           (case ensure_pipeline_initialized env a of
              (ready, a2) \<Rightarrow>
                (case (if ready then pipeline a2 else None) of
                   Some p \<Rightarrow>
                     (case classify_with_hf p text of
                        Inr hf_result \<Rightarrow>
                          if stress_score (emotion hf_result) < 0.3
                          then (classify_heuristic text, a2, [text])
                          else (hf_result, a2, [text])
                      | Inl e \<Rightarrow> (classify_heuristic text, a2, [text]))
                 | None \<Rightarrow> (classify_heuristic text, a2, [])))
         else (classify_heuristic text, a, []))"

section \<open>agents/feedback\_agent.py\<close>

subsection \<open>JSON values and dictionaries\<close>

text \<open>
  What \<open>json.loads\<close> returns, and the dictionaries the agents build. A dictionary is an
  association list with distinct keys, in insertion order.
\<close>

datatype json =
    JNull
  | JBool bool
  | JNum real
  | JStr string
  | JList "json list"
  | JDict "(string \<times> json) list"

type_synonym pydict = "(string \<times> json) list"

definition dict_get :: "pydict \<Rightarrow> string \<Rightarrow> json option" where
  \<comment> \<open>\<open>d.get(k)\<close>\<close>
  "dict_get d k = map_of d k"

definition dict_has :: "pydict \<Rightarrow> string \<Rightarrow> bool" where
  \<comment> \<open>\<open>k in d\<close>\<close>
  "dict_has d k = (map_of d k \<noteq> None)"

fun dict_set :: "pydict \<Rightarrow> string \<Rightarrow> json \<Rightarrow> pydict" where
  \<comment> \<open>\<open>d[k] = v\<close>\<close>
  "dict_set [] k v = [(k, v)]"
| "dict_set ((k', v') # d) k v = (if k' = k then (k, v) # d else (k', v') # dict_set d k v)"

definition truthy :: "json \<Rightarrow> bool" where
  \<comment> \<open>the truth value of an object in \<open>if x\<close> and \<open>not x\<close>\<close>
  "truthy j =
     (case j of
        JNull \<Rightarrow> False
      | JBool b \<Rightarrow> b
      | JNum x \<Rightarrow> x \<noteq> 0
      | JStr s \<Rightarrow> s \<noteq> []
      | JList xs \<Rightarrow> xs \<noteq> []
      | JDict d \<Rightarrow> d \<noteq> [])"

definition truthy_opt :: "json option \<Rightarrow> bool" where
  \<comment> \<open>the same for a value that may be Python's \<open>None\<close>\<close>
  "truthy_opt v = (case v of None \<Rightarrow> False | Some j \<Rightarrow> truthy j)"

text \<open>
  The operations the response extraction applies to a value of unknown shape. Each gives
  \<open>None\<close> where Python raises (\<open>TypeError\<close>, \<open>KeyError\<close>, \<open>IndexError\<close>).
\<close>

definition py_len :: "json \<Rightarrow> nat option" where
  "py_len j =
     (case j of
        JStr s \<Rightarrow> Some (length s)
      | JList xs \<Rightarrow> Some (length xs)
      | JDict d \<Rightarrow> Some (length d)
      | _ \<Rightarrow> None)"

definition py_in :: "string \<Rightarrow> json \<Rightarrow> bool option" where
  \<comment> \<open>\<open>k in j\<close>: a key of a dictionary, a member of a list, a substring of a string\<close>
  "py_in k j =
     (case j of
        JDict d \<Rightarrow> Some (dict_has d k)
      | JList xs \<Rightarrow> Some (JStr k \<in> set xs)
      | JStr s \<Rightarrow> Some (contains k s)
      | _ \<Rightarrow> None)"

definition py_first :: "json \<Rightarrow> json option" where
  \<comment> \<open>\<open>j[0]\<close>\<close>
  "py_first j =
     (case j of
        JList (x # xs) \<Rightarrow> Some x
      | JStr (c # s) \<Rightarrow> Some (JStr [c])
      | _ \<Rightarrow> None)"

definition py_getitem :: "json \<Rightarrow> string \<Rightarrow> json option" where
  \<comment> \<open>\<open>j[k]\<close> for a string \<open>k\<close>\<close>
  "py_getitem j k = (case j of JDict d \<Rightarrow> map_of d k | _ \<Rightarrow> None)"

subsection \<open>The agent and its environment\<close>

datatype error =
    RequestError
  | Unauthorized
  | RateLimited
  | HTTPError int
  | InvalidBody
  | EmptyResponse
  | NoValidJSON
  | InvalidFormat
  | InvalidStructure
  | InvalidRecommendations
  | TypeError
  | UnknownError

datatype http_reply =
    NoReply
  | Reply int "json option"

datatype json_pattern = NestedJSON | AnyJSON | SimpleJSON

datatype bridge = Completes | Fails

datatype effect = Post | Sleep real

text \<open>
  The environment of the agent. \<open>post k\<close> is what the \<open>k\<close>-th request sent to the service
  meets (counted from 0): \<open>NoReply\<close> is a \<open>httpx.RequestError\<close>, \<open>Reply status body\<close> a
  response with its status code and what \<open>response.json()\<close> gives (\<open>None\<close> where it
  raises). \<open>json_loads\<close> is \<open>json.loads\<close> (\<open>None\<close> for a \<open>JSONDecodeError\<close>), \<open>re_findall\<close> is
  \<open>re.findall(pattern, content, re.DOTALL)\<close> for the three patterns of
  \<open>_parse_json_response\<close>, and \<open>py_repr\<close> is \<open>str\<close> of a value that is not a string. \<open>bridge\<close>
  says whether the event loop that \<open>craft_message\<close> finds runs the coroutine to its end
  (as \<open>run_until_complete\<close> and \<open>asyncio.run\<close> do, and a loop running in another thread
  within the timeout) or the bridging itself raises (the bounded wait expires, the loop
  cannot be used). The effects of a call are returned as a trace: one \<open>Post\<close> for each
  request sent, one \<open>Sleep d\<close> for each \<open>asyncio.sleep(d)\<close>.
\<close>

record world =
  post :: "nat \<Rightarrow> http_reply"
  json_loads :: "string \<Rightarrow> json option"
  re_findall :: "json_pattern \<Rightarrow> string \<Rightarrow> string list"
  py_repr :: "json \<Rightarrow> string"
  bridge :: bridge

record feedback_agent =
  api_key :: "string option"
  request_timeout :: real
  max_retries :: int
  retry_backoff :: real
  openrouter_available :: bool

definition FeedbackAgent_init :: "string option \<Rightarrow> real \<Rightarrow> int \<Rightarrow> real \<Rightarrow> feedback_agent" where
  \<comment> \<open>\<open>__init__\<close>, from \<open>OPENROUTER_API_KEY\<close>, \<open>OPENROUTER_TIMEOUT\<close> (default 30.0),
      \<open>OPENROUTER_RETRIES\<close> (default 3) and \<open>OPENROUTER_BACKOFF\<close> (default 1.0)\<close>
  "FeedbackAgent_init key timeout retries backoff =
     \<lparr>api_key = key,
      request_timeout = timeout,
      max_retries = retries,
      retry_backoff = backoff,
      openrouter_available = (case key of None \<Rightarrow> False | Some k \<Rightarrow> k \<noteq> [])\<rparr>"

definition py_str :: "world \<Rightarrow> json \<Rightarrow> string" where
  \<comment> \<open>\<open>str(j)\<close>\<close>
  "py_str w j = (case j of JStr s \<Rightarrow> s | _ \<Rightarrow> py_repr w j)"

subsection \<open>The heuristic generator\<close>

definition recs_acute :: "json list" where
  \<comment> \<open>stress above 0.8, or a dominant emotion of anxiety or panic\<close>
  "recs_acute =
     [JDict [(''type'', JStr ''immediate''),
             (''text'', JStr (''T'' @ [CHR 0xC9] @ ''CNICA 5-4-3-2-1: Identifica 5 coisas que v'' @ [CHR 0xEA]
                 @ ''s, 4 que tocas, 3 que ouves, 2 que cheiras, 1 que gostas'')),
             (''why'', JStr ''Grounding sensorial reduz sintomas de ansiedade aguda'')],
      JDict [(''type'', JStr ''short_term''),
             (''text'', JStr ''POMODORO: 25min estudo + 5min pausa ativa - 4 ciclos + pausa longa''),
             (''why'', JStr (''Intervalos regulares melhoram foco e reduzem exaust'' @ [CHR 0xE3]
                 @ ''o mental''))],
      JDict [(''type'', JStr ''professional''),
             (''text'', JStr (''Procura apoio psicol'' @ [CHR 0xF3] @ ''gico universit'' @ [CHR 0xE1]
                 @ ''rio ou linha de crise local'')),
             (''why'', JStr ''Apoio imediato previne escalada de crise emocional'')]]"

definition recs_high :: "json list" where
  \<comment> \<open>stress above 0.6\<close>
  "recs_high =
     [JDict [(''type'', JStr ''immediate''),
             (''text'', JStr (''RESPIRA'' @ [CHR 0xC7] @ [CHR 0xC3]
                 @ ''O 4-7-8: Inspira 4s, segura 7s, expira 8s (3 repeti'' @ [CHR 0xE7]
                 @ [CHR 0xF5] @ ''es)'')),
             (''why'', JStr (''Respira'' @ [CHR 0xE7] @ [CHR 0xE3] @ ''o diafragm'' @ [CHR 0xE1]
                 @ ''tica ativa sistema parassimp'' @ [CHR 0xE1] @ ''tico''))],
      JDict [(''type'', JStr ''short_term''),
             (''text'', JStr (''Prioriza'' @ [CHR 0xE7] @ [CHR 0xE3] @ ''o por urg'' @ [CHR 0xEA]
                 @ ''ncia e blocos de estudo'')),
             (''why'', JStr (''Reduz sobrecarga decis'' @ [CHR 0xF3] @ ''ria''))],
      JDict [(''type'', JStr ''professional''),
             (''text'', JStr ''Marca consulta no Gabinete de Apoio ao Estudante''),
             (''why'', JStr (''Interven'' @ [CHR 0xE7] @ [CHR 0xE3] @ ''o precoce ajuda''))]]"

definition recs_moderate :: "json list" where
  \<comment> \<open>stress above 0.4\<close>
  "recs_moderate =
     [JDict [(''type'', JStr ''immediate''),
             (''text'', JStr ''PAUSA ATIVA: 5min a caminhar ou alongar''),
             (''why'', JStr (''Reduz tens'' @ [CHR 0xE3] @ ''o e aumenta circula'' @ [CHR 0xE7] @ [CHR 0xE3]
                 @ ''o''))],
      JDict [(''type'', JStr ''short_term''),
             (''text'', JStr ''Planeamento semanal com blocos de 2h''),
             (''why'', JStr ''Estrutura reduz incerteza'')],
      JDict [(''type'', JStr ''professional''),
             (''text'', JStr (''Di'' @ [CHR 0xE1] @ ''rio emocional: regista emo'' @ [CHR 0xE7] @ [CHR 0xF5]
                 @ ''es e gatilhos'')),
             (''why'', JStr (''Auto-monitoriza'' @ [CHR 0xE7] @ [CHR 0xE3] @ ''o desenvolve intelig''
                 @ [CHR 0xEA] @ ''ncia emocional''))]]"

definition recs_low_valence :: "json list" where
  \<comment> \<open>valence below 0.3\<close>
  "recs_low_valence =
     [JDict [(''type'', JStr ''immediate''),
             (''text'', JStr (''M'' @ [CHR 0xDA] @ ''SICA + MOVIMENTO: 1 m'' @ [CHR 0xFA]
                 @ ''sica que gostes + movimento breve'')),
             (''why'', JStr ''Melhora humor e aumenta energia'')],
      JDict [(''type'', JStr ''short_term''),
             (''text'', JStr (''Exposi'' @ [CHR 0xE7] @ [CHR 0xE3] @ ''o '' @ [CHR 0xE0]
                 @ '' luz natural 15min/dia'')),
             (''why'', JStr ''Regula ritmo circadiano e humor'')],
      JDict [(''type'', JStr ''professional''),
             (''text'', JStr (''Conecta com algu'' @ [CHR 0xE9] @ ''m de confian'' @ [CHR 0xE7] @ ''a'')),
             (''why'', JStr ''Apoio social protege bem-estar'')]]"

definition recs_positive :: "json list" where
  \<comment> \<open>otherwise\<close>
  "recs_positive =
     [JDict [(''type'', JStr ''immediate''),
             (''text'', JStr ''Aproveita estado de flow para tarefas que exigem foco''),
             (''why'', JStr ''Estados positivos potenciam performance'')],
      JDict [(''type'', JStr ''short_term''),
             (''text'', JStr (''T'' @ [CHR 0xE9] @ ''cnica Feynman para consolidar conhecimento'')),
             (''why'', JStr (''Aumenta reten'' @ [CHR 0xE7] @ [CHR 0xE3] @ ''o atrav'' @ [CHR 0xE9]
                 @ ''s da explica'' @ [CHR 0xE7] @ [CHR 0xE3] @ ''o ativa''))],
      JDict [(''type'', JStr ''professional''),
             (''text'', JStr ''Explora workshops e iniciativas de desenvolvimento pessoal''),
             (''why'', JStr ''Engajamento em atividades promove bem-estar'')]]"

definition transition_block_rec :: json where
  \<comment> \<open>the recommendation appended for a busy calendar\<close>
  "transition_block_rec =
     JDict [(''type'', JStr ''short_term''),
            (''text'', JStr (''BLOCO DE TRANSI'' @ [CHR 0xC7] @ [CHR 0xC3]
                @ ''O: 15min entre compromissos para recupera'' @ [CHR 0xE7] @ [CHR 0xE3] @ ''o'')),
            (''why'', JStr (''Previne acumula'' @ [CHR 0xE7] @ [CHR 0xE3] @ ''o de fadiga decis''
                @ [CHR 0xF3] @ ''ria''))]"

definition heuristic_follow_up :: string where
  "heuristic_follow_up =
     (''Como te sentes em rela'' @ [CHR 0xE7] @ [CHR 0xE3] @ ''o a estas sugest''
       @ [CHR 0xF5] @ ''es? Alguma faz particular sentido para ti?'')"

fun join_space :: "string list \<Rightarrow> string" where
  \<comment> \<open>\<open>" ".join(xs)\<close>\<close>
  "join_space [] = []"
| "join_space [x] = x"
| "join_space (x # y # xs) = x @ '' '' @ join_space (y # xs)"

definition dominant_str :: "string option \<Rightarrow> string" where
  \<comment> \<open>\<open>str(emotion_summary.get("dominant", "")).lower()\<close>\<close>
  "dominant_str d = lower (case d of None \<Rightarrow> ''None'' | Some s \<Rightarrow> s)"

definition base_recommendations :: "emotion_scores \<Rightarrow> json list" where
  "base_recommendations emotion_summary =
     (let stress = stress_score emotion_summary;
          valence_v = valence emotion_summary;
          dominant_v = dominant_str (dominant emotion_summary)
      in if stress > 0.8 \<or> contains ''ansiedade'' dominant_v \<or> contains ''panic'' dominant_v
         then recs_acute
         else if stress > 0.6 then recs_high
         else if stress > 0.4 then recs_moderate
         else if valence_v < 0.3 then recs_low_valence
         else recs_positive)"

definition calendar_recommendations :: "emotion_scores \<Rightarrow> string list \<Rightarrow> json list" where
  \<comment> \<open>what the personalisation with the calendar appends\<close>
  "calendar_recommendations emotion_summary calendar_suggestions =
     (if calendar_suggestions \<noteq> []
         \<and> any_in [''reuni'' @ [CHR 0xE3] @ ''o'', ''aula'', ''evento'', ''compromisso'']
                   (lower (join_space calendar_suggestions))
         \<and> stress_score emotion_summary > 0.5
      then [transition_block_rec] else [])"

definition heuristic_feedback :: "emotion_scores \<Rightarrow> string list \<Rightarrow> pydict" where
  "heuristic_feedback emotion_summary calendar_suggestions =
     (let recommendations = base_recommendations emotion_summary
                              @ calendar_recommendations emotion_summary calendar_suggestions
      in [(''recommendations'', JList (take 3 recommendations)),
          (''follow_up_prompt'', JStr heuristic_follow_up),
          (''source'', JStr ''heuristic_evidence_based'')])"

subsection \<open>The remote call\<close>

datatype 'a flow = Raised | Returned 'a | Fallthrough

definition text_of_choice :: "json \<Rightarrow> json flow" where
  \<comment> \<open>\<open>elif "text" in choice: return choice["text"]\<close>\<close>
  "text_of_choice choice =
     (case py_in ''text'' choice of
        None \<Rightarrow> Raised
      | Some True \<Rightarrow> (case py_getitem choice ''text'' of None \<Rightarrow> Raised | Some v \<Rightarrow> Returned v)
      | Some False \<Rightarrow> Fallthrough)"

definition content_of_choices :: "pydict \<Rightarrow> json flow" where
  \<comment> \<open>the branch for the chat-completion schema\<close>
  "content_of_choices d =
     (case map_of d ''choices'' of
        None \<Rightarrow> Fallthrough
      | Some choices \<Rightarrow>
          (case py_len choices of
             None \<Rightarrow> Raised
           | Some n \<Rightarrow>
               if n > 0 then
                 (case py_first choices of
                    None \<Rightarrow> Raised
                  | Some choice \<Rightarrow>
                      (case py_in ''message'' choice of
                         None \<Rightarrow> Raised
                       | Some False \<Rightarrow> text_of_choice choice
                       | Some True \<Rightarrow>
                           (case py_getitem choice ''message'' of
                              None \<Rightarrow> Raised
                            | Some message \<Rightarrow>
                                (case py_in ''content'' message of
                                   None \<Rightarrow> Raised
                                 | Some False \<Rightarrow> text_of_choice choice
                                 | Some True \<Rightarrow>
                                     (case py_getitem message ''content'' of
                                        None \<Rightarrow> Raised
                                      | Some v \<Rightarrow> Returned v)))))
               else Fallthrough))"

definition extract_content_from_response :: "world \<Rightarrow> json \<Rightarrow> json option" where
  "extract_content_from_response w data =
     (case data of
        JDict d \<Rightarrow>
          (case content_of_choices d of
             Raised \<Rightarrow> None
           | Returned v \<Rightarrow> Some v
           | Fallthrough \<Rightarrow>
               if dict_has d ''content'' then dict_get d ''content''
               else if dict_has d ''text'' then dict_get d ''text''
               else if dict_has d ''output'' then dict_get d ''output''
               else Some (JStr (py_str w data)))
      | JStr s \<Rightarrow> Some (JStr s)
      | _ \<Rightarrow> Some (JStr (py_str w data)))"

fun longest :: "string \<Rightarrow> string list \<Rightarrow> string" where
  \<comment> \<open>\<open>max(matches, key=len)\<close>: the first match of greatest length\<close>
  "longest best [] = best"
| "longest best (m # ms) = longest (if length m > length best then m else best) ms"

function remove_all :: "string \<Rightarrow> string \<Rightarrow> string" where
  \<comment> \<open>\<open>remove_all old s\<close>: \<open>s.replace(old, '')\<close> for a non-empty \<open>old\<close>\<close>
  "remove_all old [] = []"
| "remove_all old (c # s) =
     (if old \<noteq> [] \<and> startswith (c # s) old
      then remove_all old (drop (length old) (c # s))
      else c # remove_all old s)"
  by pat_completeness auto
termination
  by (relation "measure (\<lambda>(old, s). length s)") auto

fun try_patterns :: "world \<Rightarrow> json_pattern list \<Rightarrow> string \<Rightarrow> json option" where
  \<comment> \<open>the loop over \<open>json_patterns\<close>: the first pattern whose longest match parses\<close>
  "try_patterns w [] content = None"
| "try_patterns w (pattern # patterns) content =
     (case re_findall w pattern content of
        [] \<Rightarrow> try_patterns w patterns content
      | m # ms \<Rightarrow>
          (case json_loads w (longest m ms) of
             Some result \<Rightarrow> Some result
           | None \<Rightarrow> try_patterns w patterns content))"

definition parse_json_response :: "world \<Rightarrow> json \<Rightarrow> json option" where
  "parse_json_response w content =
     (case content of
        JStr s \<Rightarrow>
          if s = [] then None
          else (case json_loads w s of
                  Some result \<Rightarrow> Some result
                | None \<Rightarrow>
                    (case try_patterns w [NestedJSON, AnyJSON, SimpleJSON] s of
                       Some result \<Rightarrow> Some result
                     | None \<Rightarrow>
                         json_loads w
                           (strip (remove_all ''```'' (remove_all ''```json'' s)))))
      | _ \<Rightarrow> None)"

definition call_openrouter :: "world \<Rightarrow> http_reply \<Rightarrow> error + pydict" where
  \<comment> \<open>\<open>_call_openrouter\<close>, from the reply that its request meets\<close>
  "call_openrouter w reply =
     (case reply of
        NoReply \<Rightarrow> Inl RequestError
      | Reply status_code body \<Rightarrow>
          if status_code \<noteq> 200 then
            Inl (if status_code = 401 then Unauthorized
                 else if status_code = 429 then RateLimited
                 else HTTPError status_code)
          else
            (case body of
               None \<Rightarrow> Inl InvalidBody
             | Some data \<Rightarrow>
                 (let content = extract_content_from_response w data
                  in if \<not> truthy_opt content then Inl EmptyResponse
                     else
                       (case content of
                          Some (JStr s) \<Rightarrow>
                            (let result = parse_json_response w (JStr s)
                             in if \<not> truthy_opt result then Inl NoValidJSON
                                else
                                  (case result of
                                     Some (JDict d) \<Rightarrow>
                                       if \<not> dict_has d ''recommendations'' then Inl InvalidStructure
                                       else
                                         (case dict_get d ''recommendations'' of
                                            Some (JList (r # rs)) \<Rightarrow>
                                              Inr (dict_set d ''source'' (JStr ''openrouter''))
                                          | _ \<Rightarrow> Inl InvalidRecommendations)
                                   | _ \<Rightarrow> Inl InvalidFormat))
                        | Some (JList xs) \<Rightarrow> Inl NoValidJSON
                        | _ \<Rightarrow> Inl TypeError))))"

definition posts_in :: "effect list \<Rightarrow> nat" where
  "posts_in trace = length (filter (\<lambda>e. e = Post) trace)"

fun retry_loop :: "world \<Rightarrow> feedback_agent \<Rightarrow> int list \<Rightarrow> error option \<Rightarrow> effect list
    \<Rightarrow> (error + pydict) \<times> effect list" where
  \<comment> \<open>\<open>for attempt in range(1, self.max_retries + 1)\<close>, and the \<open>raise\<close> after the loop\<close>
  "retry_loop w a [] last_exc trace =
     (Inl (case last_exc of Some e \<Rightarrow> e | None \<Rightarrow> UnknownError), trace)"
| "retry_loop w a (attempt # attempts) last_exc trace =
     (case call_openrouter w (post w (posts_in trace)) of
        Inr result \<Rightarrow> (Inr result, trace @ [Post])
      | Inl e \<Rightarrow>
          (let backoff = retry_backoff a * 2 ^ nat (attempt - 1)
           in retry_loop w a attempts (Some e)
                (if attempt < max_retries a then trace @ [Post, Sleep backoff]
                 else trace @ [Post])))"

definition call_openrouter_with_retries :: "world \<Rightarrow> feedback_agent
    \<Rightarrow> (error + pydict) \<times> effect list" where
  "call_openrouter_with_retries w a = retry_loop w a [1..max_retries a] None []"

definition generate_feedback :: "world \<Rightarrow> feedback_agent \<Rightarrow> emotion_scores \<Rightarrow> string list
    \<Rightarrow> pydict \<times> effect list" where
  "generate_feedback w a emotion_summary calendar_suggestions =
     (if openrouter_available a then
        (case call_openrouter_with_retries w a of
           (Inr result, trace) \<Rightarrow> (result, trace)
         | (Inl e, trace) \<Rightarrow> (heuristic_feedback emotion_summary calendar_suggestions, trace))
      else (heuristic_feedback emotion_summary calendar_suggestions, []))"

text \<open>
  \<open>craft_message\<close> is the synchronous entry point. Where the bridging to the event loop
  fails, the caller gets the heuristic result; what the coroutine did before is not
  awaited, and the trace returned then holds the effects of \<open>craft_message\<close> itself, none.
\<close>

definition craft_message :: "world \<Rightarrow> feedback_agent \<Rightarrow> emotion_scores \<Rightarrow> string list \<Rightarrow> string
    \<Rightarrow> pydict \<times> effect list" where
  "craft_message w a emotion_summary calendar_suggestions user_text =
     (if \<not> openrouter_available a then
        (dict_set (heuristic_feedback emotion_summary calendar_suggestions)
           ''source'' (JStr ''heuristic_fallback''), [])
      else
        (case bridge w of
           Completes \<Rightarrow> generate_feedback w a emotion_summary calendar_suggestions
         | Fails \<Rightarrow>
             (dict_set (heuristic_feedback emotion_summary calendar_suggestions)
                ''source'' (JStr ''heuristic_fallback''), [])))"

section \<open>agents/interface\_agent.py\<close>

record intent_slots =
  sleep_hours :: "nat option"
  tasks :: "string list"
  deadline :: "bool option"
  explicit_emotion :: "string option"

record intent =
  raw_text :: string
  slots :: "intent_slots option"
  confidence :: real

text \<open>
  In an \<open>intent\<close>, \<open>slots = None\<close> stands for the empty dictionary \<open>{}\<close> that the
  coordinator puts there when no interface agent answers.
\<close>

definition is_digit :: "char \<Rightarrow> bool" where
  \<comment> \<open>the class \<open>\d\<close>\<close>
  "is_digit c = (let n = (of_char c :: nat) in 48 \<le> n \<and> n \<le> 57)"

definition int_of_digits :: "string \<Rightarrow> nat" where
  \<comment> \<open>\<open>int(s)\<close> of a string of decimal digits\<close>
  "int_of_digits s = foldl (\<lambda>n c. 10 * n + (of_char c - 48)) 0 s"

function sleep_search :: "string \<Rightarrow> nat option" where
  \<comment> \<open>\<open>re.search(r"(\d+)\s*(h|horas)", lower)\<close> and \<open>int\<close> of its first group: the first
      run of digits that is followed, after any white space, by the letter h\<close>
  "sleep_search [] = None"
| "sleep_search (c # s) =
     (if is_digit c then
        (case dropWhile py_isspace (dropWhile is_digit s) of
           h # rest \<Rightarrow>
             if h = CHR ''h'' then Some (int_of_digits (c # takeWhile is_digit s))
             else sleep_search (dropWhile is_digit s)
         | [] \<Rightarrow> sleep_search (dropWhile is_digit s))
      else sleep_search s)"
  by pat_completeness auto
termination
  by (relation "measure length") (auto simp: length_dropWhile_le less_Suc_eq_le)

definition emotions_map :: "(string \<times> string) list" where
  "emotions_map =
     [(''stress'', ''stress''), (''stressado'', ''stress''), (''ansioso'', ''ansiedade''),
      (''ansiosa'', ''ansiedade''), (''cansado'', ''cansa'' @ [CHR 0xE7] @ ''o''),
      (''exausto'', ''exaust'' @ [CHR 0xE3] @ ''o''), (''triste'', ''tristeza''),
      (''feliz'', ''felicidade'')]"

fun first_emotion :: "(string \<times> string) list \<Rightarrow> string \<Rightarrow> string option" where
  \<comment> \<open>\<open>for k, v in emotions_map.items(): if k in lower: ...; break\<close>\<close>
  "first_emotion [] lower_text = None"
| "first_emotion ((k, v) # kvs) lower_text =
     (if contains k lower_text then Some v else first_emotion kvs lower_text)"

definition extract_intent :: "string \<Rightarrow> intent" where
  "extract_intent text =
     (let lower_text = lower text;
          tasks1 = (if any_in [''estudar'', ''tarefa'', ''trabalho'', ''projeto''] lower_text
                    then [''refer'' @ [CHR 0xEA] @ ''ncia a estudo/trabalho''] else []);
          has_deadline = (contains ''prazo'' lower_text \<or> contains ''deadline'' lower_text);
          tasks2 = (if has_deadline \<and> ''tem'' \<notin> set tasks1 then tasks1 @ [''tem prazos'']
                    else tasks1)
      in \<lparr>raw_text = text,
          slots = Some \<lparr>sleep_hours = sleep_search lower_text,
                        tasks = tasks2,
                        deadline = (if has_deadline then Some True else None),
                        explicit_emotion = first_emotion emotions_map lower_text\<rparr>,
          confidence = 0.85\<rparr>)"

section \<open>coordinator.py\<close>

text \<open>
  The coordinator holds its four agents, each \<open>None\<close> where its construction failed. It
  calls the interface agent and the calendar agent through their methods only, and
  guards the calendar calls by \<open>try\<close>/\<open>except\<close>: they are taken as functions that answer or
  raise (\<open>Inl\<close> carries the text of the exception). \<open>InterfaceAgent\<close> is the interface
  agent of this repository. The calendar agent reads an external account.
\<close>

datatype intent_reply = IntentDict intent | NotADict

type_synonym interface_agent = "string \<Rightarrow> string + intent_reply"

definition InterfaceAgent :: interface_agent where
  "InterfaceAgent text = Inr (IntentDict (extract_intent text))"

record calendar_event =
  subject :: string
  start_time :: "int option"
  end_time :: "int option"
  location :: string
  is_all_day :: bool

record calendar_agent =
  get_upcoming_events :: "nat \<Rightarrow> string + calendar_event list"
  suggest_plan :: "emotion_scores \<Rightarrow> calendar_event list \<Rightarrow> string + string list"

record coordinator =
  c_interface :: "interface_agent option"
  c_emotion :: "emotion_agent option"
  c_calendar :: "calendar_agent option"
  c_feedback :: "feedback_agent option"

record schedule_info =
  schedule :: "string list"
  available_slots :: "int option"
  total_tasks :: "nat option"
  r_notes :: "string option"

record response =
  r_emotion :: emotion_scores
  r_optimized_schedule :: schedule_info
  r_events :: "calendar_event list"
  r_message :: pydict
  r_raw_intent :: "intent option"
  r_raw_emotion :: "classification option"
  r_success :: bool

definition extract_emotion_scores :: "classification option \<Rightarrow> emotion_scores" where
  \<comment> \<open>\<open>_extract_emotion_scores\<close>; \<open>None\<close> is the empty dictionary left when no agent classified\<close>
  "extract_emotion_scores emo_obj =
     (case emo_obj of
        None \<Rightarrow> \<lparr>stress_score = 0.0, valence = 0.0, dominant = None\<rparr>
      | Some c \<Rightarrow>
          \<lparr>stress_score = stress_score (emotion c), valence = valence (emotion c),
           dominant = dominant (emotion c)\<rparr>)"

definition default_recommendations :: "json list" where
  "default_recommendations =
     [JDict [(''type'', JStr ''immediate''),
             (''text'', JStr ''Faz uma pausa de 5 minutos e respira profundamente.''),
             (''why'', JStr ''Pausas curtas ajudam a reduzir o stress e melhorar o foco.'')],
      JDict [(''type'', JStr ''short_term''),
             (''text'', JStr ''Organiza as tuas tarefas por prioridade.''),
             (''why'', JStr (''Prioriza'' @ [CHR 0xE7] @ [CHR 0xE3]
                 @ ''o ajuda a gerir melhor o tempo e reduzir a ansiedade.''))],
      JDict [(''type'', JStr ''professional''),
             (''text'', JStr (''Mant'' @ [CHR 0xE9] @ ''m um di'' @ [CHR 0xE1] @ ''rio das tuas emo''
                 @ [CHR 0xE7] @ [CHR 0xF5] @ ''es e progresso.'')),
             (''why'', JStr (''Auto-reflex'' @ [CHR 0xE3] @ ''o promove bem-estar mental a longo prazo.''))]]"

definition apology_rec :: json where
  "apology_rec =
     JDict [(''type'', JStr ''immediate''),
            (''text'', JStr ''Ocorreu um erro. Por favor, tenta novamente.''),
            (''why'', JStr (''Erro tempor'' @ [CHR 0xE1] @ ''rio do sistema''))]"

definition default_response :: pydict where
  "default_response =
     [(''recommendations'', JList default_recommendations),
      (''follow_up_prompt'', JStr (''Como te sentes ap'' @ [CHR 0xF3] @ ''s estas sugest''
                                     @ [CHR 0xF5] @ ''es?'')),
      (''source'', JStr ''Heuristic'')]"

definition safe_generate_feedback :: "world \<Rightarrow> coordinator \<Rightarrow> emotion_scores \<Rightarrow> string list
    \<Rightarrow> pydict \<times> effect list" where
  \<comment> \<open>\<open>craft_message\<close> is total, so the \<open>except\<close> branch of the source is never entered\<close>
  "safe_generate_feedback w c emotion_summary calendar_suggestions =
     (case c_feedback c of
        None \<Rightarrow> (default_response, [])
      | Some agent \<Rightarrow>
          (case craft_message w agent emotion_summary calendar_suggestions [] of
             (result, trace) \<Rightarrow>
               if truthy_opt (dict_get result ''recommendations'') then
                 (if contains ''openrouter''
                       (lower (py_str w (case dict_get result ''source'' of
                                           None \<Rightarrow> JStr [] | Some v \<Rightarrow> v)))
                  then (dict_set result ''source'' (JStr ''LLM (OpenRouter)''), trace)
                  else (dict_set result ''source'' (JStr ''LLM''), trace))
               else (default_response, trace)))"

definition study_keywords :: "string list" where
  "study_keywords = [''estudar'', ''estudo'', ''revisar'', ''ler'', ''aprender'']"

definition project_keywords :: "string list" where
  "project_keywords = [''projeto'', ''trabalho'', ''assignment'', ''tarefa'']"

definition exercise_keywords :: "string list" where
  "exercise_keywords = [''exerc'' @ [CHR 0xED] @ ''cio'', ''correr'',
                        ''gin'' @ [CHR 0xE1] @ ''sio'', ''yoga'', ''desporto'']"

definition default_tasks :: "string list" where
  "default_tasks = [''Estudo'', ''Revis'' @ [CHR 0xE3] @ ''o'',
                    ''Exerc'' @ [CHR 0xED] @ ''cios'', ''Planeamento'']"

definition slot_tasks :: "intent_slots option \<Rightarrow> string list" where
  \<comment> \<open>\<open>[str(task) for task in task_data if task]\<close>, for the tasks of the slots, if any\<close>
  "slot_tasks slots_arg =
     (case slots_arg of
        None \<Rightarrow> []
      | Some s \<Rightarrow> filter (\<lambda>task. task \<noteq> []) (tasks s))"

definition extract_tasks_from_text :: "string \<Rightarrow> intent_slots option \<Rightarrow> string list" where
  "extract_tasks_from_text text slots_arg =
     (let tasks1 = slot_tasks slots_arg;
          lower_text = lower text;
          tasks2 = (if any_in study_keywords lower_text
                    then tasks1 @ [''Estudo/Revis'' @ [CHR 0xE3] @ ''o''] else tasks1);
          tasks3 = (if any_in project_keywords lower_text
                    then tasks2 @ [''Trabalho de Projeto''] else tasks2);
          tasks4 = (if any_in exercise_keywords lower_text
                    then tasks3 @ [''Exerc'' @ [CHR 0xED] @ ''cio F'' @ [CHR 0xED] @ ''sico'']
                    else tasks3);
          tasks5 = (if tasks4 = [] then default_tasks else tasks4)
      in take 4 tasks5)"

definition get_empty_response :: response where
  "get_empty_response =
     \<lparr>r_emotion = \<lparr>stress_score = 0.0, valence = 0.0, dominant = Some ''unknown''\<rparr>,
      r_optimized_schedule = \<lparr>schedule = [], available_slots = None, total_tasks = None,
                                r_notes = Some ''No input provided''\<rparr>,
      r_events = [],
      r_message = [(''recommendations'', JList []),
                   (''follow_up_prompt'', JStr ''Please provide some input.''),
                   (''source'', JStr ''System'')],
      r_raw_intent = None,
      r_raw_emotion = None,
      r_success = False\<rparr>"

definition get_error_response :: "string \<Rightarrow> response" where
  "get_error_response error_msg =
     \<lparr>r_emotion = \<lparr>stress_score = 0.0, valence = 0.0, dominant = Some ''unknown''\<rparr>,
      r_optimized_schedule = \<lparr>schedule = [], available_slots = None, total_tasks = None,
                                r_notes = Some (''Error: '' @ error_msg)\<rparr>,
      r_events = [],
      r_message = [(''recommendations'', JList [apology_rec]),
                   (''follow_up_prompt'',
                      JStr ''Desculpa pelo inconveniente. Podes tentar novamente?''),
                   (''source'', JStr ''System'')],
      r_raw_intent = None,
      r_raw_emotion = None,
      r_success = False\<rparr>"

definition is_blank :: "string \<Rightarrow> bool" where
  \<comment> \<open>\<open>not text or not text.strip()\<close>\<close>
  "is_blank text = (text = [] \<or> strip text = [])"

definition default_intent :: "string \<Rightarrow> intent" where
  \<comment> \<open>\<open>{"raw_text": text, "slots": {}, "confidence": 0.0}\<close>\<close>
  "default_intent text = \<lparr>raw_text = text, slots = None, confidence = 0.0\<rparr>"

definition get_intent :: "coordinator \<Rightarrow> string \<Rightarrow> string + intent" where
  \<comment> \<open>the first step of \<open>handle_text\<close>; an exception of the interface agent is not caught
      here and reaches the handler around the whole body\<close>
  "get_intent c text =
     (case c_interface c of
        None \<Rightarrow> Inr (default_intent text)
      | Some interface \<Rightarrow>
          (case interface text of
             Inl msg \<Rightarrow> Inl msg
           | Inr (IntentDict intent_result) \<Rightarrow> Inr intent_result
           | Inr NotADict \<Rightarrow> Inr (default_intent text)))"

text \<open>
  \<open>handle_text\<close> returns the response and the coordinator as the call leaves it (the
  emotion agent is updated by \<open>classify\<close>). \<open>classify\<close>, \<open>bfs_schedule\<close> and
  \<open>safe_generate_feedback\<close> are total, so the handlers around them are never entered; the
  requests that \<open>safe_generate_feedback\<close> sends are in its own trace.
\<close>

definition handle_text :: "world \<Rightarrow> transformers_import \<Rightarrow> coordinator \<Rightarrow> string
    \<Rightarrow> response \<times> coordinator" where
  "handle_text w env c text =
     (if is_blank text then (get_empty_response, c)
      else
        (case get_intent c text of
           Inl msg \<Rightarrow> (get_error_response msg, c)
         | Inr intent_v \<Rightarrow>
             (let (emo_raw, c1) =
                    (case c_emotion c of
                       None \<Rightarrow> (None, c)
                     | Some agent \<Rightarrow>
                         (case classify env agent (Some (raw_text intent_v)) of
                            (result, agent1, calls) \<Rightarrow>
                              (Some result, c\<lparr>c_emotion := Some agent1\<rparr>)));
                  emo = extract_emotion_scores emo_raw;
                  stress = max 0.0 (min 1.0 (stress_score emo));
                  valence_v = max 0.0 (min 1.0 (valence emo));
                  events = (case c_calendar c of
                              None \<Rightarrow> []
                            | Some cal \<Rightarrow>
                                (case get_upcoming_events cal 3 of
                                   Inl msg \<Rightarrow> [] | Inr evs \<Rightarrow> evs));
                  task_list = extract_tasks_from_text (raw_text intent_v) (slots intent_v);
                  slot_budget = calculate_stress_slots stress;
                  emotion_summary = \<lparr>stress_score = stress, valence = valence_v,
                                      dominant = dominant emo\<rparr>;
                  calendar_suggestions =
                    (case c_calendar c of
                       None \<Rightarrow> []
                     | Some cal \<Rightarrow>
                         (case suggest_plan cal emotion_summary events of
                            Inl msg \<Rightarrow> [] | Inr suggestions \<Rightarrow> suggestions));
                  message_obj = fst (safe_generate_feedback w c emotion_summary calendar_suggestions)
              in (\<lparr>r_emotion = \<lparr>stress_score = round3 stress, valence = round3 valence_v,
                                 dominant = dominant emo\<rparr>,
                   r_optimized_schedule =
                     \<lparr>schedule = bfs_schedule task_list slot_budget,
                      available_slots = Some slot_budget,
                      total_tasks = Some (length task_list),
                      r_notes = None\<rparr>,
                   r_events = take 5 events,
                   r_message = message_obj,
                   r_raw_intent = Some intent_v,
                   r_raw_emotion = emo_raw,
                   r_success = True\<rparr>, c1))))"

section \<open>The stress formula as described\<close>

text \<open>
  The stress score as the specification words it, from the weighted indicator count
  \<open>n\<close>: 0.5 plus 0.15 for each unit of the count, clamped to 1.0, then a flat bonus of 0.3
  from a count of 6, 0.2 from 4, 0.1 from 2, clamped to 1.0 again. It is compared below
  with what \<open>classify_heuristic\<close> computes.
\<close>

definition described_stress :: "nat \<Rightarrow> real" where
  "described_stress n =
     (let base = min 1 (0.5 + real n * 0.15)
      in if n \<ge> 6 then min 1 (base + 0.3)
         else if n \<ge> 4 then min 1 (base + 0.2)
         else if n \<ge> 2 then min 1 (base + 0.1)
         else base)"

section \<open>Example environments\<close>

text \<open>The concrete scorer, services and coordinators at which the properties are evaluated.\<close>

definition fear_pipeline :: hf_pipeline where
  \<comment> \<open>an external scorer that answers every text with the label fear at score 0.9\<close>
  "fear_pipeline t = Some (HfList [HfItem \<lparr>label = ''fear'', score = 0.9\<rparr>])"

definition hf_agent :: emotion_agent where
  \<comment> \<open>\<open>EmotionAgent(use_hf=True)\<close>\<close>
  "hf_agent = EmotionAgent_init None (Some True) None"

definition no_service :: world where
  \<comment> \<open>a service that never answers\<close>
  "no_service =
     \<lparr>post = (\<lambda>k. NoReply), json_loads = (\<lambda>s. None), re_findall = (\<lambda>p s. []),
      py_repr = (\<lambda>j. []), bridge = Completes\<rparr>"

definition four_recs_text :: string where
  \<comment> \<open>the text
      \<^verbatim>\<open>{"recommendations": [{"text": "a"}, {"text": "b"}, {"text": "c"}, {"text": "d"}]}\<close>\<close>
  "four_recs_text =
     (''{'' @ [CHR 0x22] @ ''recommendations'' @ [CHR 0x22] @ '': [{'' @ [CHR 0x22]
       @ ''text'' @ [CHR 0x22] @ '': '' @ [CHR 0x22] @ ''a'' @ [CHR 0x22] @ ''}, {''
       @ [CHR 0x22] @ ''text'' @ [CHR 0x22] @ '': '' @ [CHR 0x22] @ ''b'' @ [CHR 0x22]
       @ ''}, {'' @ [CHR 0x22] @ ''text'' @ [CHR 0x22] @ '': '' @ [CHR 0x22] @ ''c''
       @ [CHR 0x22] @ ''}, {'' @ [CHR 0x22] @ ''text'' @ [CHR 0x22] @ '': ''
       @ [CHR 0x22] @ ''d'' @ [CHR 0x22] @ ''}]}'')"

definition four_recs_json :: json where
  \<comment> \<open>what \<open>json.loads\<close> makes of it\<close>
  "four_recs_json =
     JDict [(''recommendations'',
             JList [JDict [(''text'', JStr ''a'')], JDict [(''text'', JStr ''b'')],
                    JDict [(''text'', JStr ''c'')], JDict [(''text'', JStr ''d'')]])]"

definition four_recs_service :: world where
  \<comment> \<open>a service that answers every request with a chat completion of four recommendations\<close>
  "four_recs_service =
     \<lparr>post = (\<lambda>k. Reply 200
                 (Some (JDict [(''choices'',
                    JList [JDict [(''message'',
                       JDict [(''role'', JStr ''assistant''),
                              (''content'', JStr four_recs_text)])]])]))),
      json_loads = (\<lambda>s. if s = four_recs_text then Some four_recs_json else None),
      re_findall = (\<lambda>p s. []),
      py_repr = (\<lambda>j. []),
      bridge = Completes\<rparr>"

definition keyed_agent :: feedback_agent where
  \<comment> \<open>the agent with an API key and the default timeout, retries and backoff\<close>
  "keyed_agent = FeedbackAgent_init (Some ''sk-key'') 30.0 3 1.0"

definition keyless_agent :: feedback_agent where
  \<comment> \<open>the agent with no API key\<close>
  "keyless_agent = FeedbackAgent_init None 30.0 3 1.0"

definition calm :: emotion_scores where
  "calm = \<lparr>stress_score = 0.0, valence = 0.0, dominant = Some ''neutro''\<rparr>"

definition failing_interface :: interface_agent where
  \<comment> \<open>an interface agent whose \<open>extract_intent\<close> raises\<close>
  "failing_interface text = Inl ''boom''"

definition breathu :: coordinator where
  \<comment> \<open>the coordinator of an installation with no calendar account and no API key\<close>
  "breathu =
     \<lparr>c_interface = Some InterfaceAgent,
      c_emotion = Some (EmotionAgent_init None None None),
      c_calendar = None,
      c_feedback = Some keyless_agent\<rparr>"

section \<open>Properties of the schedule allocator\<close>

lemma bfs_loop_enumerate:
  "bfs_loop queue sched b =
     sched @ map (\<lambda>(i, task). slot_label (Suc i) task)
                    (enumerate (length sched) (take (nat b - length sched) queue))"
proof (induction queue arbitrary: sched)
  case Nil
  show ?case by simp
next
  case (Cons task queue)
  show ?case
  proof (cases "int (length sched) < b")
    case True
    then have "nat b - length sched = Suc (nat b - Suc (length sched))"
      by linarith
    with True Cons [of "sched @ [slot_label (length sched + 1) task]"]
    show ?thesis by simp
  next
    case False
    then have "nat b - length sched = 0"
      by linarith
    with False show ?thesis by simp
  qed
qed

text \<open>
  C7. \<open>bfs_schedule\<close> (the spec's \<open>allocate\<close>) is a total function. For every task list
  and every slot budget its result has \<open>min (len tasks) budget\<close> entries (none for a
  budget below one), entry number \<open>i\<close> is the label \<open>Slot i: task\<close> of the \<open>i\<close>-th task, so the
  tasks keep their order and each takes one slot, and an empty task list or a budget of 0
  gives the empty schedule.
\<close>

theorem bfs_schedule_fifo:
  "bfs_schedule task_list budget =
     map (\<lambda>(i, task). slot_label (Suc i) task) (enumerate 0 (take (nat budget) task_list))
   \<and> length (bfs_schedule task_list budget) = min (length task_list) (nat budget)
   \<and> bfs_schedule [] budget = []
   \<and> bfs_schedule task_list 0 = []"
  by (simp add: bfs_schedule_def bfs_loop_enumerate)

section \<open>Properties of the emotion classifier\<close>

lemma round_half_even_int: "round_half_even (of_int m) = m"
  by (simp add: round_half_even_def)

lemma round_half_even_bounds:
  assumes "0 \<le> x" "x \<le> of_int n"
  shows "0 \<le> round_half_even x \<and> round_half_even x \<le> n"
proof -
  have f0: "0 \<le> \<lfloor>x\<rfloor>" using assms by simp
  have fn: "\<lfloor>x\<rfloor> \<le> n" using assms by (simp add: floor_le_iff)
  show ?thesis
  proof (cases "\<lfloor>x\<rfloor> = n")
    case True
    then have "x - of_int \<lfloor>x\<rfloor> \<le> 0" using assms by simp
    then show ?thesis using f0 True by (simp add: round_half_even_def Let_def)
  next
    case False
    then have "\<lfloor>x\<rfloor> + 1 \<le> n" using fn by simp
    then show ?thesis using f0 fn by (auto simp: round_half_even_def Let_def)
  qed
qed

lemma round2_unit: "0 \<le> x \<Longrightarrow> x \<le> 1 \<Longrightarrow> 0 \<le> round2 x \<and> round2 x \<le> 1"
  using round_half_even_bounds [of "x * 100" 100] by (simp add: round2_def)

lemma round2_hundredths: "round2 (of_int m / 100) = of_int m / 100"
  by (simp add: round2_def round_half_even_int)

lemma counted_stress_unit: "0 \<le> counted_stress t \<and> counted_stress t \<le> 1"
  by (simp add: counted_stress_def Let_def)

lemma heuristic_stress_unit: "0 \<le> heuristic_stress t \<and> heuristic_stress t \<le> 1"
  using counted_stress_unit [of t] by (auto simp: heuristic_stress_def max_def)

lemma heuristic_valence_unit: "0 \<le> heuristic_valence t \<and> heuristic_valence t \<le> 1"
  by (auto simp: heuristic_valence_def Let_def min_def)

lemma classify_is_heuristic:
  "classify env a text_arg =
     (classify_heuristic (case text_arg of None \<Rightarrow> [] | Some t \<Rightarrow> t), a\<lparr>use_hf := False\<rparr>, [])"
  by (simp add: classify_def Let_def)

text \<open>
  C4. For every input of \<open>classify\<close> (a text, the empty text, or \<open>None\<close>, which
  \<open>text or ""\<close> turns into the empty text), whatever the agent's state and the external
  scorer are, the stress score and the valence of the result lie in the closed interval
  from 0 to 1. \<open>classify\<close> is a total function whose result type has no error: every
  exception of the scorer path is caught inside it.
\<close>

theorem classify_scores_in_unit_interval:
  "(case classify env a text_arg of
      (result, a', calls) \<Rightarrow>
        0 \<le> stress_score (emotion result) \<and> stress_score (emotion result) \<le> 1
        \<and> 0 \<le> valence (emotion result) \<and> valence (emotion result) \<le> 1)"
  using heuristic_stress_unit heuristic_valence_unit
  by (simp add: classify_is_heuristic classify_heuristic_def Let_def round2_unit)

lemma described_stress_values:
  "0 < n \<Longrightarrow> described_stress n = (if n = 1 then 65 / 100 else if n = 2 then 90 / 100 else 1)"
  by (cases "n = 1"; cases "n = 2"; cases "n = 3") (auto simp: described_stress_def Let_def min_def)

lemma counted_stress_described:
  "0 < stress_count_of t \<Longrightarrow> counted_stress t = described_stress (stress_count_of t)"
  by (simp add: counted_stress_def described_stress_def Let_def)

lemma described_stress_hundredths:
  assumes "0 < n"
  shows "\<exists>m::int. described_stress n = of_int m / 100"
proof -
  consider "n = 1" | "n = 2" | "n \<noteq> 1 \<and> n \<noteq> 2" by blast
  then show ?thesis
  proof cases
    case 1
    then have "described_stress n = of_int 65 / 100"
      using described_stress_values [OF assms] by simp
    then show ?thesis by blast
  next
    case 2
    then have "described_stress n = of_int 90 / 100"
      using described_stress_values [OF assms] by simp
    then show ?thesis by blast
  next
    case 3
    then have "described_stress n = of_int 100 / 100"
      using described_stress_values [OF assms] by simp
    then show ?thesis by blast
  qed
qed

lemma counted_stress_hundredths: "\<exists>m::int. counted_stress t = of_int m / 100"
proof (cases "0 < stress_count_of t")
  case True
  then show ?thesis
    using described_stress_hundredths [OF True] by (simp add: counted_stress_described)
next
  case False
  show ?thesis
  proof (cases "any_in [''stress'', ''ansiedade'', ''preocupado'', ''sobrecarregado''] t")
    case True
    with False have "counted_stress t = of_int 40 / 100"
      by (simp add: counted_stress_def Let_def)
    then show ?thesis by blast
  next
    case no: False
    with False have "counted_stress t = of_int 0 / 100"
      by (simp add: counted_stress_def Let_def)
    then show ?thesis by blast
  qed
qed

lemma heuristic_stress_hundredths: "\<exists>m::int. heuristic_stress t = of_int m / 100"
proof -
  obtain m :: int where m: "counted_stress t = of_int m / 100"
    using counted_stress_hundredths by blast
  have "max (counted_stress t) 0.7 = counted_stress t \<or> max (counted_stress t) 0.7 = of_int 70 / 100"
    by (simp add: max_def)
  then show ?thesis
    using m by (cases "high_stress_phrase_found t") (auto simp: heuristic_stress_def)
qed

lemma round2_heuristic_stress: "round2 (heuristic_stress t) = heuristic_stress t"
proof -
  obtain m :: int where "heuristic_stress t = of_int m / 100"
    using heuristic_stress_hundredths by blast
  then show ?thesis by (simp only: round2_hundredths)
qed

text \<open>
  C5. On the heuristic path, whenever the weighted count of stress indicators found in
  the text is positive, the stress score returned is the described formula of that count
  (0.5 plus 0.15 per unit, clamped to 1.0, with the flat bonuses, each clamped to 1.0),
  raised to 0.7 where it is lower and a high-intensity phrase matches; and whenever a
  high-intensity phrase matches, the stress score returned is at least 0.7. The phrase is
  a floor: a text with one indicator and a phrase scores 0.7, not 0.65 plus anything.
\<close>

theorem heuristic_stress_formula:
  "(0 < stress_count_of (lower text) \<longrightarrow>
      stress_score (emotion (classify_heuristic text)) =
        (if high_stress_phrase_found (lower text)
         then max (described_stress (stress_count_of (lower text))) 0.7
         else described_stress (stress_count_of (lower text))))
   \<and> (high_stress_phrase_found (lower text) \<longrightarrow>
        0.7 \<le> stress_score (emotion (classify_heuristic text)))"
proof -
  have "stress_score (emotion (classify_heuristic text)) = heuristic_stress (lower text)"
    by (simp add: classify_heuristic_def Let_def round2_heuristic_stress)
  then show ?thesis
    by (simp add: heuristic_stress_def counted_stress_described)
qed

lemma cansada_count: "stress_count_of (lower ''Sinto-me cansada'') = 1"
  by (simp add: stress_count_of_def stress_indicators_def indicator_weight_def lower_def
      lower_char_def)

lemma cansada_phrase: "high_stress_phrase_found (lower ''Sinto-me cansada'')"
  by (simp add: high_stress_phrase_found_def high_stress_phrases_def lit_def py_isspace_def
      lower_def lower_char_def)

theorem heuristic_stress_formula_witness:
  "0 < stress_count_of (lower ''Sinto-me cansada'')
   \<and> high_stress_phrase_found (lower ''Sinto-me cansada'')
   \<and> described_stress (stress_count_of (lower ''Sinto-me cansada'')) = 0.65
   \<and> stress_score (emotion (classify_heuristic ''Sinto-me cansada'')) = 0.7"
  using heuristic_stress_formula [of "''Sinto-me cansada''"] cansada_phrase
  by (simp add: cansada_count described_stress_def)

text \<open>
  C6, as the code has it. \<open>classify\<close> resets \<open>use_hf\<close> to \<open>False\<close> before it tests it, on every
  call: whatever the agent's configuration, the text, and the scorer that the environment
  offers, the result is the heuristic classification of the text, the external scorer is
  not invoked, and the agent is left with \<open>use_hf\<close> disabled.
\<close>

theorem classify_always_heuristic:
  "classify env a text_arg =
     (classify_heuristic (case text_arg of None \<Rightarrow> [] | Some t \<Rightarrow> t), a\<lparr>use_hf := False\<rparr>, [])
   \<and> (case classify env a text_arg of (result, a', calls) \<Rightarrow> calls = [] \<and> \<not> use_hf a')"
  by (simp add: classify_is_heuristic)

lemma fear_scorer:
  "classify_with_hf fear_pipeline ''tudo bem comigo''
   = Inr \<lparr>raw = [HfItem \<lparr>label = ''fear'', score = 0.9\<rparr>],
          emotion = \<lparr>stress_score = 0.9, valence = 0, dominant = Some ''fear''\<rparr>\<rparr>"
  by (simp add: classify_with_hf_def fear_pipeline_def hf_flatten_def label_score_sum_def
      stress_labels_def valence_labels_def lower_def lower_char_def)

lemma strip_tudo: "strip ''tudo bem comigo'' = ''tudo bem comigo''"
  by (simp add: strip_def py_isspace_def)

lemma hf_agent_ready:
  "use_hf hf_agent \<and> ensure_pipeline_initialized (PipelineLoaded fear_pipeline) hf_agent
     = (True, hf_agent\<lparr>pipeline := Some fear_pipeline, pipeline_initialized := True\<rparr>)"
  by (simp add: hf_agent_def EmotionAgent_init_def ensure_pipeline_initialized_def)

lemma scorer_first_fear:
  "snd (snd (classify_scorer_first (PipelineLoaded fear_pipeline) hf_agent (Some ''tudo bem comigo'')))
     = [''tudo bem comigo'']"
  by (simp add: classify_scorer_first_def fear_scorer strip_tudo hf_agent_ready)

text \<open>
  C6 fails as stated. With \<open>use_hf\<close> enabled, a text of fifteen characters and a scorer
  that is available and answers with a stress of 0.9, the described classifier passes the
  text to the scorer, but \<open>classify\<close> never invokes it and returns the heuristic result.
\<close>

theorem classify_scorer_first_counterexample:
  "use_hf hf_agent
   \<and> 5 < length (strip ''tudo bem comigo'')
   \<and> classify_with_hf fear_pipeline ''tudo bem comigo''
       = Inr \<lparr>raw = [HfItem \<lparr>label = ''fear'', score = 0.9\<rparr>],
              emotion = \<lparr>stress_score = 0.9, valence = 0, dominant = Some ''fear''\<rparr>\<rparr>
   \<and> snd (snd (classify_scorer_first (PipelineLoaded fear_pipeline) hf_agent
                  (Some ''tudo bem comigo''))) = [''tudo bem comigo'']
   \<and> snd (snd (classify (PipelineLoaded fear_pipeline) hf_agent (Some ''tudo bem comigo''))) = []
   \<and> fst (classify (PipelineLoaded fear_pipeline) hf_agent (Some ''tudo bem comigo''))
       = classify_heuristic ''tudo bem comigo''
   \<and> classify (PipelineLoaded fear_pipeline) hf_agent (Some ''tudo bem comigo'')
      \<noteq> classify_scorer_first (PipelineLoaded fear_pipeline) hf_agent (Some ''tudo bem comigo'')"
proof -
  have a: "snd (snd (classify (PipelineLoaded fear_pipeline) hf_agent (Some ''tudo bem comigo''))) = []"
    by (simp add: classify_is_heuristic)
  have b: "fst (classify (PipelineLoaded fear_pipeline) hf_agent (Some ''tudo bem comigo''))
       = classify_heuristic ''tudo bem comigo''"
    by (simp add: classify_is_heuristic)
  have "snd (snd (classify (PipelineLoaded fear_pipeline) hf_agent (Some ''tudo bem comigo'')))
        \<noteq> snd (snd (classify_scorer_first (PipelineLoaded fear_pipeline) hf_agent
                        (Some ''tudo bem comigo'')))"
    unfolding a scorer_first_fear by simp
  then have "classify (PipelineLoaded fear_pipeline) hf_agent (Some ''tudo bem comigo'')
      \<noteq> classify_scorer_first (PipelineLoaded fear_pipeline) hf_agent (Some ''tudo bem comigo'')"
    by metis
  then show ?thesis
    using a b scorer_first_fear hf_agent_ready fear_scorer by (simp add: strip_tudo)
qed

section \<open>Properties of the feedback agent\<close>

lemma upto_1_3: "[1..3::int] = [1, 2, 3]"
  by (simp add: upto_rec1 upto.simps)

lemma posts_in_simps [simp]:
  "posts_in [] = 0" "posts_in (Post # t) = Suc (posts_in t)" "posts_in (Sleep d # t) = posts_in t"
  by (simp_all add: posts_in_def)

text \<open>
  C8. With \<open>max_retries = 3\<close> the retry loop sends at most three requests. After a
  failed attempt \<open>k\<close> that is not the last it sleeps \<open>retry_backoff * 2 ^ (k - 1)\<close>, and it
  never sleeps after the third attempt: when the first two attempts fail the effects are
  exactly request, sleep, request, sleep, request, whatever the third attempt gives. With
  \<open>retry_backoff = 1.0\<close> the two delays are 1.0 and 2.0 (the witness). The delays are
  products of the backoff and a power of two, which floating point computes exactly.
\<close>

theorem retry_trace_three:
  assumes "max_retries a = 3"
  shows "snd (call_openrouter_with_retries w a) =
           (if isl (call_openrouter w (post w 0)) then
              (if isl (call_openrouter w (post w 1))
               then [Post, Sleep (retry_backoff a * 2 ^ (1 - 1)),
                     Post, Sleep (retry_backoff a * 2 ^ (2 - 1)), Post]
               else [Post, Sleep (retry_backoff a * 2 ^ (1 - 1)), Post])
            else [Post])"
  using assms
  by (simp add: call_openrouter_with_retries_def upto_1_3 Let_def split: sum.splits)

lemma no_service_fails: "call_openrouter no_service (post no_service k) = Inl RequestError"
  by (simp add: no_service_def call_openrouter_def)

theorem retry_trace_three_witness:
  "max_retries keyed_agent = 3 \<and> retry_backoff keyed_agent = 1
   \<and> call_openrouter_with_retries no_service keyed_agent
       = (Inl RequestError, [Post, Sleep 1, Post, Sleep 2, Post])"
proof -
  have m: "max_retries keyed_agent = 3" and b: "retry_backoff keyed_agent = 1"
    by (simp_all add: keyed_agent_def FeedbackAgent_init_def)
  have t: "snd (call_openrouter_with_retries no_service keyed_agent) = [Post, Sleep 1, Post, Sleep 2, Post]"
    using retry_trace_three [OF m, of no_service] by (simp add: no_service_fails b)
  have "fst (call_openrouter_with_retries no_service keyed_agent) = Inl RequestError"
    by (simp add: call_openrouter_with_retries_def m upto_1_3 no_service_fails Let_def)
  with t m b show ?thesis by (simp add: prod_eq_iff)
qed

lemma base_recommendations_length: "length (base_recommendations es) = 3"
  by (simp add: base_recommendations_def Let_def recs_acute_def recs_high_def recs_moderate_def
      recs_low_valence_def recs_positive_def)

lemma heuristic_feedback_dict:
  "heuristic_feedback es cs
     = [(''recommendations'', JList (base_recommendations es)),
        (''follow_up_prompt'', JStr heuristic_follow_up),
        (''source'', JStr ''heuristic_evidence_based'')]"
  by (simp add: heuristic_feedback_def Let_def base_recommendations_length)

text \<open>
  C3. If no API token is configured (\<open>openrouter_available\<close> is false, which
  \<open>__init__\<close> sets for a missing or empty key), then for every emotion summary and every
  list of calendar suggestions the synchronous call \<open>craft_message\<close> sends no request and
  does not sleep, and returns the recommendations of the heuristic generator under the
  heuristic provenance tag, which the code writes \<open>heuristic_fallback\<close>.
\<close>

theorem no_token_heuristic:
  assumes "\<not> openrouter_available a"
  shows "snd (craft_message w a es cs user_text) = []
         \<and> dict_get (fst (craft_message w a es cs user_text)) ''source''
             = Some (JStr ''heuristic_fallback'')
         \<and> dict_get (fst (craft_message w a es cs user_text)) ''recommendations''
             = dict_get (heuristic_feedback es cs) ''recommendations''"
  using assms
  by (simp add: craft_message_def heuristic_feedback_dict dict_get_def)

lemma unconfigured: "openrouter_available (FeedbackAgent_init key t r b) = (key \<noteq> None \<and> key \<noteq> Some [])"
  by (cases key) (simp_all add: FeedbackAgent_init_def)

theorem no_token_heuristic_witness:
  "\<not> openrouter_available keyless_agent
   \<and> craft_message four_recs_service keyless_agent calm [] []
       = ([(''recommendations'', JList recs_low_valence),
           (''follow_up_prompt'', JStr heuristic_follow_up),
           (''source'', JStr ''heuristic_fallback'')], [])"
proof -
  have u: "\<not> openrouter_available keyless_agent"
    by (simp add: keyless_agent_def unconfigured)
  have r: "base_recommendations calm = recs_low_valence"
    by (simp add: base_recommendations_def calm_def Let_def dominant_str_def lower_def
        lower_char_def)
  have "fst (craft_message four_recs_service keyless_agent calm [] [])
        = [(''recommendations'', JList recs_low_valence),
           (''follow_up_prompt'', JStr heuristic_follow_up),
           (''source'', JStr ''heuristic_fallback'')]"
    using u by (simp add: craft_message_def heuristic_feedback_dict r)
  with u no_token_heuristic [OF u, of four_recs_service calm "[]" "[]"]
  show ?thesis by (simp add: prod_eq_iff)
qed

lemma four_recs_call:
  "call_openrouter four_recs_service (post four_recs_service k)
     = Inr [(''recommendations'',
             JList [JDict [(''text'', JStr ''a'')], JDict [(''text'', JStr ''b'')],
                    JDict [(''text'', JStr ''c'')], JDict [(''text'', JStr ''d'')]]),
            (''source'', JStr ''openrouter'')]"
proof -
  have ne: "four_recs_text \<noteq> []"
    by (simp add: four_recs_text_def)
  have e: "extract_content_from_response four_recs_service
             (JDict [(''choices'', JList [JDict [(''message'',
                 JDict [(''role'', JStr ''assistant''), (''content'', JStr four_recs_text)])]])])
           = Some (JStr four_recs_text)"
    by (simp add: extract_content_from_response_def content_of_choices_def py_len_def py_first_def
        py_in_def py_getitem_def dict_has_def)
  have p: "parse_json_response four_recs_service (JStr four_recs_text) = Some four_recs_json"
    using ne by (simp add: parse_json_response_def four_recs_service_def)
  have po: "post four_recs_service k = Reply 200 (Some (JDict [(''choices'', JList [JDict [(''message'',
                 JDict [(''role'', JStr ''assistant''), (''content'', JStr four_recs_text)])]])]))"
    by (simp add: four_recs_service_def)
  show ?thesis
    unfolding po call_openrouter_def
    using ne by (simp add: e p Let_def truthy_opt_def truthy_def four_recs_json_def dict_has_def dict_get_def)
qed

lemma heuristic_recommendations_at_most_three:
  "\<exists>rs. dict_get (heuristic_feedback es cs) ''recommendations'' = Some (JList rs) \<and> length rs \<le> 3"
  by (simp add: heuristic_feedback_def dict_get_def Let_def)

text \<open>
  C2, at a failing input. The service answers the first request with a well-formed chat
  completion whose JSON text holds four recommendations. \<open>_call_openrouter\<close> checks that
  the list is not empty and returns the parsed dictionary as it is: the envelope that
  \<open>craft_message\<close> returns holds all four. The heuristic generator, on its side, returns at
  most three (\<open>heuristic_recommendations_at_most_three\<close>).
\<close>

theorem remote_recommendations_not_truncated:
  "craft_message four_recs_service keyed_agent es cs user_text
     = ([(''recommendations'',
          JList [JDict [(''text'', JStr ''a'')], JDict [(''text'', JStr ''b'')],
                 JDict [(''text'', JStr ''c'')], JDict [(''text'', JStr ''d'')]]),
         (''source'', JStr ''openrouter'')], [Post])"
proof -
  have a: "openrouter_available keyed_agent" "max_retries keyed_agent = 3"
    by (simp_all add: keyed_agent_def FeedbackAgent_init_def)
  have b: "bridge four_recs_service = Completes"
    by (simp add: four_recs_service_def)
  have "call_openrouter_with_retries four_recs_service keyed_agent
     = (Inr [(''recommendations'',
          JList [JDict [(''text'', JStr ''a'')], JDict [(''text'', JStr ''b'')],
                 JDict [(''text'', JStr ''c'')], JDict [(''text'', JStr ''d'')]]),
         (''source'', JStr ''openrouter'')], [Post])"
    by (simp add: call_openrouter_with_retries_def a upto_1_3 four_recs_call)
  then show ?thesis
    by (simp add: craft_message_def generate_feedback_def a b)
qed

text \<open>
  C1, at a failing input. The feedback agent has no API key, so \<open>craft_message\<close> sends
  no request and returns the recommendations of the heuristic generator, tagged
  \<open>heuristic_fallback\<close>. \<open>_safe_generate_feedback\<close> then overwrites the tag: a result whose
  source does not contain \<open>openrouter\<close> is labelled \<open>LLM\<close>. The envelope assembled by the
  pipeline presents heuristic recommendations as generated by the remote model.
\<close>

theorem fallback_labelled_llm:
  "safe_generate_feedback w
      \<lparr>c_interface = i, c_emotion = e, c_calendar = k, c_feedback = Some keyless_agent\<rparr> es cs
     = ([(''recommendations'', JList (base_recommendations es)),
         (''follow_up_prompt'', JStr heuristic_follow_up),
         (''source'', JStr ''LLM'')], [])"
proof -
  have u: "\<not> openrouter_available keyless_agent"
    by (simp add: keyless_agent_def unconfigured)
  have c: "craft_message w keyless_agent es cs []
       = ([(''recommendations'', JList (base_recommendations es)),
           (''follow_up_prompt'', JStr heuristic_follow_up),
           (''source'', JStr ''heuristic_fallback'')], [])"
    using u by (simp add: craft_message_def heuristic_feedback_dict)
  have t: "base_recommendations es \<noteq> []"
    using base_recommendations_length [of es] by auto
  have n: "\<not> contains ''openrouter'' (lower ''heuristic_fallback'')"
    by (simp add: lower_def lower_char_def)
  show ?thesis
    using t n by (simp add: safe_generate_feedback_def c dict_get_def truthy_opt_def truthy_def py_str_def)
qed

section \<open>Properties of the coordinator\<close>

lemma extract_tasks_nonempty: "extract_tasks_from_text text sl \<noteq> []"
  by (simp add: extract_tasks_from_text_def Let_def default_tasks_def)

lemma extract_tasks_at_most_four: "length (extract_tasks_from_text text sl) \<le> 4"
  by (simp add: extract_tasks_from_text_def Let_def)

lemma stress_slots_at_least_two: "2 \<le> calculate_stress_slots s"
  by (simp add: calculate_stress_slots_def)

lemma bfs_schedule_nonempty:
  assumes "task_list \<noteq> []" and "1 \<le> budget"
  shows "bfs_schedule task_list budget \<noteq> []"
proof -
  have "length (bfs_schedule task_list budget) = min (length task_list) (nat budget)"
    by (simp add: bfs_schedule_def bfs_loop_enumerate)
  moreover have "0 < length task_list" and "0 < nat budget"
    using assms by simp_all
  ultimately have "0 < length (bfs_schedule task_list budget)"
    by simp
  then show ?thesis by blast
qed

lemma scheduled_tasks_nonempty:
  "bfs_schedule (extract_tasks_from_text t sl) (calculate_stress_slots s) \<noteq> []"
proof -
  have "1 \<le> calculate_stress_slots s"
    using stress_slots_at_least_two [of s] by linarith
  then show ?thesis
    using bfs_schedule_nonempty [OF extract_tasks_nonempty] by blast
qed

lemma handle_text_schedule_nonempty:
  assumes "r_success (fst (handle_text w env c text))"
  shows "schedule (r_optimized_schedule (fst (handle_text w env c text))) \<noteq> []"
  using assms
  by (auto simp: handle_text_def get_empty_response_def get_error_response_def Let_def
           scheduled_tasks_nonempty
           split: if_splits sum.splits option.splits prod.splits)

lemma ola_lower: "lower ''ola'' = ''ola''"
  by (simp add: lower_def lower_char_def)

lemma ola_intent: "extract_intent ''ola'' = \<lparr>raw_text = ''ola'', slots = Some \<lparr>sleep_hours = None, tasks = [], deadline = None, explicit_emotion = None\<rparr>, confidence = 0.85\<rparr>"
  by (simp add: extract_intent_def ola_lower any_in_def emotions_map_def is_digit_def)

lemma ola_scores: "heuristic_stress ''ola'' = 0 \<and> heuristic_valence ''ola'' = 0"
  by (simp add: heuristic_stress_def counted_stress_def
      stress_count_of_def stress_indicators_def high_stress_phrase_found_def high_stress_phrases_def
      lit_def heuristic_valence_def valence_count_of_def valence_indicators_def any_in_def)

lemma round_zero: "round2 0 = 0 \<and> round3 0 = 0"
  by (simp add: round2_def round3_def round_half_even_def)

lemma ola_classified:
  "classify_heuristic ''ola'' = \<lparr>raw = [], emotion = \<lparr>stress_score = 0, valence = 0, dominant = Some ''neutro''\<rparr>\<rparr>"
  by (simp add: classify_heuristic_def ola_lower ola_scores round_zero dominant_emotion_def)

lemma ola_tasks: "extract_tasks_from_text ''ola'' (Some \<lparr>sleep_hours = None, tasks = [], deadline = None, explicit_emotion = None\<rparr>) = default_tasks"
  by (simp add: extract_tasks_from_text_def slot_tasks_def ola_lower any_in_def study_keywords_def
      project_keywords_def exercise_keywords_def Let_def default_tasks_def)

lemma str_nat_small:
  "str_nat (Suc 0) = ''1''" "str_nat (Suc (Suc 0)) = ''2''"
  "str_nat (Suc (Suc (Suc 0))) = ''3''" "str_nat (Suc (Suc (Suc (Suc 0)))) = ''4''"
  by (simp_all add: str_nat.simps digit_char_def)

lemma default_schedule:
  "bfs_schedule default_tasks 4
     = [''Slot 1: Estudo'', ''Slot 2: Revis'' @ [CHR 0xE3] @ ''o'',
        ''Slot 3: Exerc'' @ [CHR 0xED] @ ''cios'', ''Slot 4: Planeamento'']"
  by (simp add: bfs_schedule_def default_tasks_def slot_label_def str_nat_small)

lemma ola_not_blank: "\<not> is_blank ''ola''"
  by (simp add: is_blank_def strip_def py_isspace_def)

lemma ola_response:
  "r_success (fst (handle_text no_service ImportFails breathu ''ola''))
   \<and> r_optimized_schedule (fst (handle_text no_service ImportFails breathu ''ola''))
      = \<lparr>schedule = bfs_schedule default_tasks 4,
         available_slots = Some 4, total_tasks = Some 4, r_notes = None\<rparr>"
  by (simp add: handle_text_def ola_not_blank get_intent_def breathu_def
      InterfaceAgent_def ola_intent classify_is_heuristic ola_classified extract_emotion_scores_def
      ola_tasks calculate_stress_slots_def Let_def default_tasks_def)

text \<open>
  C10. For every input text (blank or not) and every slots value, the task extraction
  returns a list that is not empty and has at most 4 tasks; where neither the slots nor
  the keyword scan give a task, it is the fixed default list of 4 tasks. The slot budget
  is at least 2 for every stress level, so the schedule built from the extracted tasks is
  not empty, and every successful response of \<open>handle_text\<close> carries a schedule that is
  not empty.
\<close>

theorem tasks_and_schedule_nonempty:
  "extract_tasks_from_text text sl \<noteq> []
   \<and> length (extract_tasks_from_text text sl) \<le> 4
   \<and> (slot_tasks sl = [] \<and> \<not> any_in study_keywords (lower text)
        \<and> \<not> any_in project_keywords (lower text) \<and> \<not> any_in exercise_keywords (lower text)
       \<longrightarrow> extract_tasks_from_text text sl = default_tasks)
   \<and> 2 \<le> calculate_stress_slots s
   \<and> bfs_schedule (extract_tasks_from_text text sl) (calculate_stress_slots s) \<noteq> []
   \<and> (r_success (fst (handle_text w env c text)) \<longrightarrow>
        schedule (r_optimized_schedule (fst (handle_text w env c text))) \<noteq> [])"
proof -
  have d: "slot_tasks sl = [] \<and> \<not> any_in study_keywords (lower text)
        \<and> \<not> any_in project_keywords (lower text) \<and> \<not> any_in exercise_keywords (lower text)
       \<longrightarrow> extract_tasks_from_text text sl = default_tasks"
    by (simp add: extract_tasks_from_text_def Let_def default_tasks_def)
  show ?thesis
    using d scheduled_tasks_nonempty handle_text_schedule_nonempty
      extract_tasks_nonempty extract_tasks_at_most_four stress_slots_at_least_two
    by blast
qed

theorem tasks_and_schedule_nonempty_witness:
  "slot_tasks (slots (extract_intent ''ola'')) = []
   \<and> \<not> any_in study_keywords (lower ''ola'')
   \<and> \<not> any_in project_keywords (lower ''ola'')
   \<and> \<not> any_in exercise_keywords (lower ''ola'')
   \<and> extract_tasks_from_text ''ola'' (slots (extract_intent ''ola'')) = default_tasks
   \<and> r_success (fst (handle_text no_service ImportFails breathu ''ola''))
   \<and> schedule (r_optimized_schedule (fst (handle_text no_service ImportFails breathu ''ola'')))
       \<noteq> []"
proof -
  have k: "slot_tasks (slots (extract_intent ''ola'')) = []
     \<and> \<not> any_in study_keywords (lower ''ola'')
     \<and> \<not> any_in project_keywords (lower ''ola'')
     \<and> \<not> any_in exercise_keywords (lower ''ola'')"
    by (simp add: ola_intent ola_lower slot_tasks_def any_in_def study_keywords_def
        project_keywords_def exercise_keywords_def)
  have ok: "r_success (fst (handle_text no_service ImportFails breathu ''ola''))"
    using ola_response by blast
  show ?thesis
    using k ok
      tasks_and_schedule_nonempty [of "''ola''" "slots (extract_intent ''ola'')" _ no_service
        ImportFails breathu]
    by blast
qed

lemma handle_text_cases:
  "fst (handle_text w env c text) =
     (if is_blank text then get_empty_response
      else case get_intent c text of
             Inl msg \<Rightarrow> get_error_response msg
           | Inr i \<Rightarrow> (fst (handle_text w env c text))\<lparr>r_success := True\<rparr>)"
  by (auto simp: handle_text_def Let_def split: sum.splits option.splits prod.splits)

lemma repository_interface_never_fails:
  "c_interface c = None \<or> c_interface c = Some InterfaceAgent \<Longrightarrow> \<not> isl (get_intent c text)"
  by (auto simp: get_intent_def InterfaceAgent_def)

text \<open>
  C9. \<open>handle_text\<close> reports \<open>success = False\<close> in exactly two cases. For a blank input
  (empty, or white space only) it returns the empty response, whose recommendation list is
  empty. For an input that is not blank, it fails exactly when an exception reaches the
  handler around its body, which in the model is an exception of the interface agent
  (the agent of this repository never raises, see \<open>repository_interface_never_fails\<close>); it
  then returns the error response, with the one apology recommendation and the source tag
  that the code writes \<open>System\<close>. On every other path, also without an emotion agent, a
  calendar or a feedback agent, and when the remote service fails, it reports
  \<open>success = True\<close>.
\<close>

theorem handle_text_success:
  "r_success (fst (handle_text w env c text)) = (\<not> is_blank text \<and> \<not> isl (get_intent c text))
   \<and> (if is_blank text then fst (handle_text w env c text) = get_empty_response
      else case get_intent c text of
             Inl msg \<Rightarrow> fst (handle_text w env c text) = get_error_response msg
           | Inr i \<Rightarrow> r_success (fst (handle_text w env c text)))
   \<and> \<not> r_success get_empty_response
   \<and> dict_get (r_message get_empty_response) ''recommendations'' = Some (JList [])
   \<and> \<not> r_success (get_error_response m)
   \<and> dict_get (r_message (get_error_response m)) ''recommendations'' = Some (JList [apology_rec])
   \<and> dict_get (r_message (get_error_response m)) ''source'' = Some (JStr ''System'')"
proof -
  have e: "\<not> r_success get_empty_response
     \<and> dict_get (r_message get_empty_response) ''recommendations'' = Some (JList [])"
    by (simp add: get_empty_response_def dict_get_def)
  have f: "\<And>x. \<not> r_success (get_error_response x)
     \<and> dict_get (r_message (get_error_response x)) ''recommendations'' = Some (JList [apology_rec])
     \<and> dict_get (r_message (get_error_response x)) ''source'' = Some (JStr ''System'')"
    by (simp add: get_error_response_def dict_get_def)
  have s: "r_success (fst (handle_text w env c text)) = (\<not> is_blank text \<and> \<not> isl (get_intent c text))"
    using e f by (subst handle_text_cases) (simp split: sum.splits)
  have c: "(if is_blank text then fst (handle_text w env c text) = get_empty_response
      else case get_intent c text of
             Inl msg \<Rightarrow> fst (handle_text w env c text) = get_error_response msg
           | Inr i \<Rightarrow> r_success (fst (handle_text w env c text)))"
    using s by (subst (1 2) handle_text_cases) (simp split: sum.splits)
  show ?thesis using e f s c by blast
qed

lemma blank_spaces: "is_blank ''   ''"
  by (simp add: is_blank_def strip_def py_isspace_def)

lemma failing_intent: "get_intent (breathu\<lparr>c_interface := Some failing_interface\<rparr>) ''ola'' = Inl ''boom''"
  by (simp add: get_intent_def failing_interface_def)

theorem handle_text_success_witness:
  "fst (handle_text no_service ImportFails breathu ''   '') = get_empty_response
   \<and> fst (handle_text no_service ImportFails (breathu\<lparr>c_interface := Some failing_interface\<rparr>) ''ola'')
       = get_error_response ''boom''
   \<and> r_success (fst (handle_text no_service ImportFails breathu ''ola''))"
proof -
  have n: "\<not> isl (get_intent breathu ''ola'')"
    by (rule repository_interface_never_fails) (simp add: breathu_def)
  show ?thesis
    using handle_text_success [of no_service ImportFails breathu "''   ''"]
      handle_text_success [of no_service ImportFails "breathu\<lparr>c_interface := Some failing_interface\<rparr>" "''ola''"]
      handle_text_success [of no_service ImportFails breathu "''ola''"]
    by (simp add: blank_spaces ola_not_blank failing_intent n)
qed

end
